theory Spec2Isabelle
  imports Complex_Main
begin

section \<open>JavaScript values\<close>

text \<open>
  A JavaScript number is modelled as an exact rational, or one of the three values that
  are not finite. Arithmetic on finite numbers is exact: the binary rounding and the
  overflow of IEEE doubles are not modelled, and neither is the sign of zero (a zero
  divisor counts as +0, which is what the additions of \<open>flourWeight\<close> produce). A
  property of the calculator is therefore stated as an equality between values the code
  computes or as a bound, and a number is written out only for an input at which the
  arithmetic of doubles returns that number.
\<close>

datatype jsnum = Num rat | PInf | NInf | NaN

definition inf_of_sign :: "rat \<Rightarrow> jsnum" where
  "inf_of_sign a = (if 0 < a then PInf else if a < 0 then NInf else NaN)"

text \<open>The operator \<open>*\<close>.\<close>

fun js_mul :: "jsnum \<Rightarrow> jsnum \<Rightarrow> jsnum" where
  "js_mul (Num a) (Num b) = Num (a * b)"
| "js_mul (Num a) PInf = inf_of_sign a"
| "js_mul (Num a) NInf = inf_of_sign (- a)"
| "js_mul PInf (Num b) = inf_of_sign b"
| "js_mul NInf (Num b) = inf_of_sign (- b)"
| "js_mul PInf PInf = PInf"
| "js_mul PInf NInf = NInf"
| "js_mul NInf PInf = NInf"
| "js_mul NInf NInf = PInf"
| "js_mul NaN y = NaN"
| "js_mul x NaN = NaN"

text \<open>The operator \<open>/\<close>.\<close>

fun js_div :: "jsnum \<Rightarrow> jsnum \<Rightarrow> jsnum" where
  "js_div (Num a) (Num b) = (if b = 0 then inf_of_sign a else Num (a / b))"
| "js_div (Num a) PInf = Num 0"
| "js_div (Num a) NInf = Num 0"
| "js_div PInf (Num b) = (if b < 0 then NInf else PInf)"
| "js_div NInf (Num b) = (if b < 0 then PInf else NInf)"
| "js_div PInf PInf = NaN"
| "js_div PInf NInf = NaN"
| "js_div NInf PInf = NaN"
| "js_div NInf NInf = NaN"
| "js_div NaN y = NaN"
| "js_div x NaN = NaN"

text \<open>The binary operator \<open>-\<close>.\<close>

fun js_sub :: "jsnum \<Rightarrow> jsnum \<Rightarrow> jsnum" where
  "js_sub (Num a) (Num b) = Num (a - b)"
| "js_sub (Num a) PInf = NInf"
| "js_sub (Num a) NInf = PInf"
| "js_sub PInf (Num b) = PInf"
| "js_sub NInf (Num b) = NInf"
| "js_sub PInf PInf = NaN"
| "js_sub PInf NInf = PInf"
| "js_sub NInf PInf = NInf"
| "js_sub NInf NInf = NaN"
| "js_sub NaN y = NaN"
| "js_sub x NaN = NaN"

text \<open>
  \<open>Math.round\<close>: the nearest integer, a tie going up (towards plus infinity); a value
  that is not finite is returned as it is.
\<close>

definition round_half_up :: "rat \<Rightarrow> int" where
  "round_half_up a = \<lfloor>a + 1 / 2\<rfloor>"

fun Math_round :: "jsnum \<Rightarrow> jsnum" where
  "Math_round (Num a) = Num (of_int (round_half_up a))"
| "Math_round x = x"

text \<open>
  A value a property can hold, and an object as the list of its own properties in
  insertion order. \<open>JBuiltin\<close> is a value of the platform that an object inherits (a
  method of \<open>Object.prototype\<close>, or \<open>Object.prototype\<close> itself), by its name.
\<close>

datatype jsval =
    JNum jsnum
  | JBool bool
  | JStr string
  | JObj "(string \<times> jsval) list"
  | JBuiltin string

text \<open>\<open>obj.k\<close> on own properties: \<open>None\<close> is \<open>undefined\<close>.\<close>

fun js_get :: "jsval \<Rightarrow> string \<Rightarrow> jsval option" where
  "js_get (JObj ps) k = map_of ps k"
| "js_get v k = None"

text \<open>\<open>obj.k1.k2...\<close>, a read along a path of property names.\<close>

fun js_path :: "jsval \<Rightarrow> string list \<Rightarrow> jsval option" where
  "js_path v [] = Some v"
| "js_path v (k # ks) = (case js_get v k of None \<Rightarrow> None | Some w \<Rightarrow> js_path w ks)"

text \<open>\<open>obj.k = v\<close>: an existing property keeps its place, a new one goes last.\<close>

fun js_set :: "string \<Rightarrow> jsval \<Rightarrow> (string \<times> jsval) list \<Rightarrow> (string \<times> jsval) list" where
  "js_set k v [] = [(k, v)]"
| "js_set k v ((k', v') # ps) = (if k = k' then (k, v) # ps else (k', v') # js_set k v ps)"


section \<open>Numbers and strings\<close>

text \<open>
  The decimal digits that \<open>toString\<close> prints for an integer. (An integer of 22 digits or
  more prints with an exponent in JavaScript; the theorems about printed numbers assume
  fewer digits.)
\<close>

definition digit_char :: "nat \<Rightarrow> char" where
  "digit_char n = ''0123456789'' ! n"

fun digits_of :: "nat \<Rightarrow> string" where
  "digits_of n =
     (if n < 10 then [digit_char n] else digits_of (n div 10) @ [digit_char (n mod 10)])"

declare digits_of.simps [simp del]

definition Number_toString :: "int \<Rightarrow> string" where
  "Number_toString n = (if n < 0 then CHR ''-'' # digits_of (nat (- n)) else digits_of (nat n))"

text \<open>
  \<open>parseInt(s, 10)\<close>: leading white space is skipped (the ASCII white space; a string is
  modelled as its bytes), then an optional sign, then the longest run of decimal digits;
  \<open>NaN\<close> when there is no digit, and whatever follows the digits is ignored.
\<close>

definition is_whitespace :: "char \<Rightarrow> bool" where
  "is_whitespace c = (c \<in> set [CHR 0x09, CHR 0x0A, CHR 0x0B, CHR 0x0C, CHR 0x0D, CHR '' ''])"

definition is_digit :: "char \<Rightarrow> bool" where
  "is_digit c = (c \<in> set ''0123456789'')"

definition digit_value :: "char \<Rightarrow> nat" where
  "digit_value c = of_char c - 48"

definition parseInt :: "string \<Rightarrow> jsnum" where
  "parseInt s =
     (let s1 = dropWhile is_whitespace s;
          negative = (s1 \<noteq> [] \<and> hd s1 = CHR ''-'');
          s2 = (if s1 \<noteq> [] \<and> (hd s1 = CHR ''-'' \<or> hd s1 = CHR ''+'') then tl s1 else s1);
          ds = takeWhile is_digit s2
      in if ds = [] then NaN
         else let m = foldl (\<lambda>a c. 10 * a + digit_value c) 0 ds
              in Num (if negative then - of_nat m else of_nat m))"


section \<open>The platform's URL and URLSearchParams\<close>

text \<open>
  A \<open>URLSearchParams\<close> object is its list of name-value pairs. \<open>set\<close> replaces the first
  pair of that name and removes the others, or appends; \<open>get\<close> returns the first value of
  that name, \<open>None\<close> standing for \<open>null\<close>.
\<close>

type_synonym URLSearchParams = "(string \<times> string) list"

fun sp_set :: "string \<Rightarrow> string \<Rightarrow> URLSearchParams \<Rightarrow> URLSearchParams" where
  "sp_set k v [] = [(k, v)]"
| "sp_set k v ((k', v') # ps) =
     (if k = k' then (k, v) # filter (\<lambda>p. fst p \<noteq> k) ps else (k', v') # sp_set k v ps)"

definition sp_get :: "URLSearchParams \<Rightarrow> string \<Rightarrow> string option" where
  "sp_get ps k = map_of ps k"

text \<open>
  \<open>toString\<close>, the \<open>application/x-www-form-urlencoded\<close> serializer: a space becomes
  \<open>+\<close>, a letter, a digit and \<open>* - . _\<close> stay, any other byte becomes \<open>%XX\<close>.
\<close>

definition urlencoded_safe :: "char \<Rightarrow> bool" where
  "urlencoded_safe c =
     (c \<in> set ''*-._0123456789ABCDEFGHIJKLMNOPQRSTUVWXYZabcdefghijklmnopqrstuvwxyz'')"

definition hex_digit :: "nat \<Rightarrow> char" where
  "hex_digit n = ''0123456789ABCDEF'' ! n"

definition urlencoded_byte :: "char \<Rightarrow> string" where
  "urlencoded_byte c =
     (if c = CHR '' '' then ''+''
      else if urlencoded_safe c then [c]
      else [CHR ''%'', hex_digit (of_char c div 16), hex_digit (of_char c mod 16)])"

definition urlencoded_string :: "string \<Rightarrow> string" where
  "urlencoded_string s = concat (map urlencoded_byte s)"

fun sp_toString :: "URLSearchParams \<Rightarrow> string" where
  "sp_toString [] = []"
| "sp_toString [(k, v)] = urlencoded_string k @ ''='' @ urlencoded_string v"
| "sp_toString ((k, v) # p # ps) =
     urlencoded_string k @ ''='' @ urlencoded_string v @ ''&'' @ sp_toString (p # ps)"

text \<open>
  The parser of the same format: the input is split at \<open>&\<close>, an empty piece is skipped,
  a piece is split at its first \<open>=\<close>, and in name and value \<open>+\<close> becomes a space and
  \<open>%XX\<close> the byte; a \<open>%\<close> that two hexadecimal digits do not follow stays.
\<close>

definition hex_value :: "char \<Rightarrow> nat option" where
  "hex_value c =
     (if is_digit c then Some (of_char c - 48)
      else if c \<in> set ''ABCDEF'' then Some (of_char c - 55)
      else if c \<in> set ''abcdef'' then Some (of_char c - 87)
      else None)"

fun percent_decode :: "string \<Rightarrow> string" where
  "percent_decode [] = []"
| "percent_decode (c # cs) =
     (if c = CHR ''+'' then CHR '' '' # percent_decode cs
      else if c = CHR ''%'' then
        (case cs of
           h1 # h2 # rest \<Rightarrow>
             (case (hex_value h1, hex_value h2) of
                (Some a, Some b) \<Rightarrow> char_of (16 * a + b) # percent_decode rest
              | _ \<Rightarrow> c # percent_decode cs)
         | _ \<Rightarrow> c # percent_decode cs)
      else c # percent_decode cs)"

fun split_on :: "char \<Rightarrow> string \<Rightarrow> string \<Rightarrow> string list" where
  "split_on sep acc [] = [rev acc]"
| "split_on sep acc (c # cs) =
     (if c = sep then rev acc # split_on sep [] cs else split_on sep (c # acc) cs)"

definition parse_pair :: "string \<Rightarrow> string \<times> string" where
  "parse_pair piece =
     (percent_decode (takeWhile (\<lambda>c. c \<noteq> CHR ''='') piece),
      percent_decode (drop 1 (dropWhile (\<lambda>c. c \<noteq> CHR ''='') piece)))"

definition urlencoded_parse :: "string \<Rightarrow> URLSearchParams" where
  "urlencoded_parse s = map parse_pair (filter (\<lambda>piece. piece \<noteq> []) (split_on CHR ''&'' [] s))"

text \<open>\<open>new URLSearchParams(s)\<close>: one leading \<open>?\<close> is dropped.\<close>

definition new_URLSearchParams :: "string \<Rightarrow> URLSearchParams" where
  "new_URLSearchParams s =
     urlencoded_parse (if s \<noteq> [] \<and> hd s = CHR ''?'' then tl s else s)"

text \<open>
  \<open>new URL(input).searchParams\<close>, \<open>None\<close> when the constructor throws. Without a base the
  input must start with a scheme (a letter, then letters, digits, \<open>+ - .\<close>, then a colon),
  and a URL of a special scheme needs a host. The query is what stands between the first
  \<open>?\<close> and the first \<open>#\<close>. The model goes no further: the platform also trims the input
  and rejects some hosts and ports. (\<open>file\<close>, the sixth special scheme, needs no host.)
\<close>

definition is_alpha :: "char \<Rightarrow> bool" where
  "is_alpha c = (c \<in> set ''ABCDEFGHIJKLMNOPQRSTUVWXYZabcdefghijklmnopqrstuvwxyz'')"

definition is_scheme_char :: "char \<Rightarrow> bool" where
  "is_scheme_char c = (is_alpha c \<or> is_digit c \<or> c \<in> set ''+-.'')"

definition special_schemes :: "string list" where
  "special_schemes = [''http'', ''https'', ''ftp'', ''ws'', ''wss'']"

definition url_host :: "string \<Rightarrow> string" where
  "url_host after_colon =
     takeWhile (\<lambda>c. c \<notin> set [CHR ''/'', CHR 0x5C, CHR ''?'', CHR ''#''])
       (dropWhile (\<lambda>c. c \<in> set [CHR ''/'', CHR 0x5C]) after_colon)"

definition url_query :: "string \<Rightarrow> string" where
  "url_query s = drop 1 (dropWhile (\<lambda>c. c \<noteq> CHR ''?'') (takeWhile (\<lambda>c. c \<noteq> CHR ''#'') s))"

definition ascii_lowercase :: "string \<Rightarrow> string" where
  "ascii_lowercase s =
     map (\<lambda>c. if is_alpha c \<and> of_char c < (97 :: nat) then char_of (of_char c + (32 :: nat)) else c) s"

definition new_URL_searchParams :: "string \<Rightarrow> URLSearchParams option" where
  "new_URL_searchParams input =
     (let scheme = takeWhile is_scheme_char input;
          after = drop (length scheme) input
      in if scheme = [] \<or> \<not> is_alpha (hd scheme) \<or> after = [] \<or> hd after \<noteq> CHR '':''
         then None
         else if ascii_lowercase scheme \<in> set special_schemes \<and> url_host (tl after) = []
         then None
         else Some (urlencoded_parse (url_query input)))"


section \<open>RecipeURLCodec (scripts/features/shareRecipe.js)\<close>

text \<open>
  The recipe object handed to \<open>encodeRecipe\<close>: the recipe parameters, and the two
  optional strings \<open>style\<close> and \<open>flourType\<close>. \<open>numBalls\<close> and \<open>ballWeight\<close> are whole
  numbers here.
\<close>

record recipe =
  style :: "string option"
  numBalls :: int
  ballWeight :: int
  hydration :: rat
  salt :: rat
  yeast :: rat
  oil :: rat
  sugar :: rat
  usePreFerment :: bool
  preFermentType :: string
  preFermentFlourPercent :: rat
  bigaHydration :: rat
  humidityAdjust :: bool
  flourType :: "string option"

definition PARAM_MAP :: "(string \<times> string) list" where
  "PARAM_MAP =
     [(''style'', ''s''), (''numBalls'', ''n''), (''ballWeight'', ''w''), (''hydration'', ''h''),
      (''salt'', ''sa''), (''yeast'', ''y''), (''oil'', ''o''), (''sugar'', ''su''),
      (''usePreFerment'', ''pf''), (''preFermentType'', ''pft''),
      (''preFermentFlourPercent'', ''pfp''), (''humidityAdjust'', ''ha''), (''flourType'', ''ft'')]"

text \<open>\<open>PARAM_MAP.k\<close>, as the string a missing key would be turned into.\<close>

definition param_key :: "string \<Rightarrow> string" where
  "param_key k = (case map_of PARAM_MAP k of Some short \<Rightarrow> short | None \<Rightarrow> ''undefined'')"

text \<open>The step \<open>if (recipe.x) params.set(k, recipe.x)\<close>.\<close>

definition set_if_truthy :: "string option \<Rightarrow> string \<Rightarrow> URLSearchParams \<Rightarrow> URLSearchParams" where
  "set_if_truthy x k params =
     (case x of Some s \<Rightarrow> if s \<noteq> [] then sp_set k s params else params | None \<Rightarrow> params)"

text \<open>The parameters \<open>encodeRecipe\<close> collects, in the order it sets them.\<close>

definition encode_params :: "recipe \<Rightarrow> URLSearchParams" where
  "encode_params r =
     (let params = [];
          params = set_if_truthy (recipe.style r) (param_key ''style'') params;
          params = sp_set (param_key ''numBalls'') (Number_toString (recipe.numBalls r)) params;
          params = sp_set (param_key ''ballWeight'') (Number_toString (recipe.ballWeight r)) params;
          params = sp_set (param_key ''hydration'')
                     (Number_toString (round_half_up (recipe.hydration r * 100))) params;
          params = sp_set (param_key ''salt'')
                     (Number_toString (round_half_up (recipe.salt r * 1000))) params;
          params = sp_set (param_key ''yeast'')
                     (Number_toString (round_half_up (recipe.yeast r * 1000))) params;
          params = (if recipe.oil r > 0
                    then sp_set (param_key ''oil'')
                           (Number_toString (round_half_up (recipe.oil r * 100))) params
                    else params);
          params = (if recipe.sugar r > 0
                    then sp_set (param_key ''sugar'')
                           (Number_toString (round_half_up (recipe.sugar r * 100))) params
                    else params);
          params = (if recipe.usePreFerment r
                    then sp_set (param_key ''preFermentFlourPercent'')
                           (Number_toString (round_half_up (recipe.preFermentFlourPercent r * 100)))
                           (sp_set (param_key ''preFermentType'')
                              (if recipe.preFermentType r \<noteq> [] then recipe.preFermentType r
                               else ''poolish'')
                              (sp_set (param_key ''usePreFerment'') ''1'' params))
                    else params);
          params = (if recipe.humidityAdjust r
                    then sp_set (param_key ''humidityAdjust'') ''1'' params else params);
          params = set_if_truthy (recipe.flourType r) (param_key ''flourType'') params
      in params)"

text \<open>
  \<open>encodeRecipe\<close>. The first argument is \<open>window.location.origin\<close>, \<open>None\<close> where there
  is no \<open>window\<close>.
\<close>

definition encodeRecipe :: "string option \<Rightarrow> recipe \<Rightarrow> string" where
  "encodeRecipe window_origin r =
     (let baseUrl = (case window_origin of
                       Some origin \<Rightarrow> origin
                     | None \<Rightarrow> ''https://thepizzadoughformula.com'')
      in baseUrl @ ''/?'' @ sp_toString (encode_params r))"

text \<open>What \<open>decodeRecipe\<close> can be called with.\<close>

datatype decode_input =
    InString string
  | InParams URLSearchParams
  | InOther

text \<open>The step \<open>const x = params.get(k); if (x) recipe.name = conv(x)\<close>.\<close>

definition assign_if_truthy ::
  "string option \<Rightarrow> string \<Rightarrow> (string \<Rightarrow> jsval) \<Rightarrow> (string \<times> jsval) list \<Rightarrow> (string \<times> jsval) list" where
  "assign_if_truthy x name conv r =
     (case x of Some s \<Rightarrow> if s \<noteq> [] then js_set name (conv s) r else r | None \<Rightarrow> r)"

text \<open>The body of \<open>decodeRecipe\<close> once \<open>params\<close> is known: the object it fills.\<close>

definition decode_params :: "URLSearchParams \<Rightarrow> jsval" where
  "decode_params params =
     (let r = [];
          r = assign_if_truthy (sp_get params (param_key ''style'')) ''style'' JStr r;
          r = assign_if_truthy (sp_get params (param_key ''numBalls'')) ''numBalls''
                (\<lambda>s. JNum (parseInt s)) r;
          r = assign_if_truthy (sp_get params (param_key ''ballWeight'')) ''ballWeight''
                (\<lambda>s. JNum (parseInt s)) r;
          r = assign_if_truthy (sp_get params (param_key ''hydration'')) ''hydration''
                (\<lambda>s. JNum (js_div (parseInt s) (Num 100))) r;
          r = assign_if_truthy (sp_get params (param_key ''salt'')) ''salt''
                (\<lambda>s. JNum (js_div (parseInt s) (Num 1000))) r;
          r = assign_if_truthy (sp_get params (param_key ''yeast'')) ''yeast''
                (\<lambda>s. JNum (js_div (parseInt s) (Num 1000))) r;
          r = assign_if_truthy (sp_get params (param_key ''oil'')) ''oil''
                (\<lambda>s. JNum (js_div (parseInt s) (Num 100))) r;
          r = assign_if_truthy (sp_get params (param_key ''sugar'')) ''sugar''
                (\<lambda>s. JNum (js_div (parseInt s) (Num 100))) r;
          r = (if sp_get params (param_key ''usePreFerment'') = Some ''1''
               then assign_if_truthy (sp_get params (param_key ''preFermentFlourPercent''))
                      ''preFermentFlourPercent'' (\<lambda>s. JNum (js_div (parseInt s) (Num 100)))
                      (js_set ''preFermentType''
                         (JStr (case sp_get params (param_key ''preFermentType'') of
                                  Some t \<Rightarrow> if t \<noteq> [] then t else ''poolish''
                                | None \<Rightarrow> ''poolish''))
                         (js_set ''usePreFerment'' (JBool True) r))
               else r);
          r = (if sp_get params (param_key ''humidityAdjust'') = Some ''1''
               then js_set ''humidityAdjust'' (JBool True) r else r);
          r = assign_if_truthy (sp_get params (param_key ''flourType'')) ''flourType'' JStr r
      in JObj r)"

text \<open>\<open>decodeRecipe\<close>: \<open>None\<close> is the \<open>null\<close> it returns.\<close>

definition decodeRecipe :: "decode_input \<Rightarrow> jsval option" where
  "decodeRecipe input =
     (case input of
        InString s \<Rightarrow>
          Some (decode_params
                  (case new_URL_searchParams s of
                     Some params \<Rightarrow> params
                   | None \<Rightarrow> new_URLSearchParams s))
      | InParams params \<Rightarrow> Some (decode_params params)
      | InOther \<Rightarrow> None)"


section \<open>PresetCatalog (scripts/calculator/presets.js)\<close>

text \<open>
  The names every object literal inherits from \<open>Object.prototype\<close>. \<open>obj[k]\<close> finds an
  own property first and an inherited one next; each inherited value is a function, or
  for \<open>__proto__\<close> the prototype object, so it counts as true in a condition and has no
  property \<open>defaults\<close>.
\<close>

definition Object_prototype_names :: "string list" where
  "Object_prototype_names =
     [''constructor'', ''__defineGetter__'', ''__defineSetter__'', ''hasOwnProperty'',
      ''__lookupGetter__'', ''__lookupSetter__'', ''isPrototypeOf'', ''propertyIsEnumerable'',
      ''toString'', ''valueOf'', ''__proto__'', ''toLocaleString'']"

fun js_index :: "jsval \<Rightarrow> string \<Rightarrow> jsval option" where
  "js_index (JObj ps) k =
     (case map_of ps k of
        Some v \<Rightarrow> Some v
      | None \<Rightarrow> if k \<in> set Object_prototype_names then Some (JBuiltin k) else None)"
| "js_index v k = None"

text \<open>A value as a condition; \<open>None\<close> is \<open>undefined\<close>.\<close>

fun truthy :: "jsval option \<Rightarrow> bool" where
  "truthy None = False"
| "truthy (Some (JNum (Num a))) = (a \<noteq> 0)"
| "truthy (Some (JNum NaN)) = False"
| "truthy (Some (JNum PInf)) = True"
| "truthy (Some (JNum NInf)) = True"
| "truthy (Some (JBool b)) = b"
| "truthy (Some (JStr s)) = (s \<noteq> [])"
| "truthy (Some (JObj ps)) = True"
| "truthy (Some (JBuiltin n)) = True"

text \<open>
  The object spread \<open>{ ...x }\<close>: the own properties of an object; nothing for
  \<open>undefined\<close>, a number, a boolean or a function. (A string would spread its characters;
  no \<open>defaults\<close> of the catalog is a string.)
\<close>

fun spread :: "jsval option \<Rightarrow> jsval" where
  "spread (Some (JObj ps)) = JObj ps"
| "spread v = JObj []"

text \<open>
  The catalog, with the \<open>id\<close>, \<open>name\<close>, \<open>icon\<close> and \<open>defaults\<close> of each style; the
  descriptive texts of a style (equipment, flour, temperatures, tips), which no function
  of the module reads, are left out.
\<close>

definition PIZZA_STYLES :: jsval where
  "PIZZA_STYLES = JObj
     [(''neapolitan'', JObj
         [(''id'', JStr ''neapolitan''), (''name'', JStr ''Neapolitan''),
          (''icon'', JStr ''neapolitan''),
          (''defaults'', JObj
             [(''ballWeight'', JNum (Num 250)), (''hydration'', JNum (Num (62 / 100))),
              (''salt'', JNum (Num (25 / 1000))), (''yeast'', JNum (Num (3 / 1000))),
              (''oil'', JNum (Num 0)), (''sugar'', JNum (Num 0))])]),
      (''newYork'', JObj
         [(''id'', JStr ''newYork''), (''name'', JStr ''New York''), (''icon'', JStr ''newYork''),
          (''defaults'', JObj
             [(''ballWeight'', JNum (Num 280)), (''hydration'', JNum (Num (65 / 100))),
              (''salt'', JNum (Num (2 / 100))), (''yeast'', JNum (Num (4 / 1000))),
              (''oil'', JNum (Num (3 / 100))), (''sugar'', JNum (Num (2 / 100)))])]),
      (''detroit'', JObj
         [(''id'', JStr ''detroit''), (''name'', JStr ''Detroit''), (''icon'', JStr ''detroit''),
          (''defaults'', JObj
             [(''ballWeight'', JNum (Num 400)), (''hydration'', JNum (Num (72 / 100))),
              (''salt'', JNum (Num (2 / 100))), (''yeast'', JNum (Num (5 / 1000))),
              (''oil'', JNum (Num (4 / 100))), (''sugar'', JNum (Num (1 / 100)))])]),
      (''thinCrispy'', JObj
         [(''id'', JStr ''thinCrispy''), (''name'', JStr ''Thin & Crispy''),
          (''icon'', JStr ''thinCrispy''),
          (''defaults'', JObj
             [(''ballWeight'', JNum (Num 180)), (''hydration'', JNum (Num (55 / 100))),
              (''salt'', JNum (Num (2 / 100))), (''yeast'', JNum (Num (4 / 1000))),
              (''oil'', JNum (Num (2 / 100))), (''sugar'', JNum (Num 0))])]),
      (''poolishBiga'', JObj
         [(''id'', JStr ''poolishBiga''), (''name'', JStr ''Poolish/Biga''),
          (''icon'', JStr ''poolishBiga''),
          (''defaults'', JObj
             [(''ballWeight'', JNum (Num 260)), (''hydration'', JNum (Num (65 / 100))),
              (''salt'', JNum (Num (25 / 1000))), (''yeast'', JNum (Num (2 / 1000))),
              (''oil'', JNum (Num 0)), (''sugar'', JNum (Num 0)),
              (''usePreFerment'', JBool True), (''preFermentType'', JStr ''poolish''),
              (''preFermentFlourPercent'', JNum (Num (25 / 100)))])]),
      (''emergency'', JObj
         [(''id'', JStr ''emergency''), (''name'', JStr ''Emergency (2hr)''),
          (''icon'', JStr ''emergency''),
          (''defaults'', JObj
             [(''ballWeight'', JNum (Num 250)), (''hydration'', JNum (Num (60 / 100))),
              (''salt'', JNum (Num (2 / 100))), (''yeast'', JNum (Num (1 / 100))),
              (''oil'', JNum (Num (2 / 100))), (''sugar'', JNum (Num (1 / 100)))]),
          (''showTimer'', JBool True)]),
      (''custom'', JObj
         [(''id'', JStr ''custom''), (''name'', JStr ''Custom''), (''icon'', JStr ''custom''),
          (''defaults'', JObj
             [(''ballWeight'', JNum (Num 250)), (''hydration'', JNum (Num (65 / 100))),
              (''salt'', JNum (Num (2 / 100))), (''yeast'', JNum (Num (3 / 1000))),
              (''oil'', JNum (Num 0)), (''sugar'', JNum (Num 0))])])]"

definition getStyleIds :: "string list" where
  "getStyleIds = (case PIZZA_STYLES of JObj ps \<Rightarrow> map fst ps | _ \<Rightarrow> [])"

definition getStyleById :: "string \<Rightarrow> jsval option" where
  "getStyleById id' = js_index PIZZA_STYLES id'"

definition getStyleDefaults :: "string \<Rightarrow> jsval" where
  "getStyleDefaults id' =
     (let style = js_index PIZZA_STYLES id'
      in if truthy style
         then spread (case style of Some st \<Rightarrow> js_get st ''defaults'' | None \<Rightarrow> None)
         else spread (js_path PIZZA_STYLES [''custom'', ''defaults'']))"


section \<open>EmergencyTimer (scripts/features/emergencyTimer.js)\<close>

text \<open>
  The snapshot \<open>saveState\<close> writes under the key \<open>emergencyTimer\<close>, and what the store
  can hold under that key: no store at all (\<open>typeof localStorage === 'undefined'\<close>), no
  item, an item that sends \<open>loadState\<close> to its \<open>catch\<close> branch (\<open>JSON.parse\<close> rejects
  it), or a snapshot with its four fields. Times are whole milliseconds.
\<close>

record saved_state =
  remaining :: int
  isRunning :: bool
  savedAt :: int
  duration :: int

datatype local_storage =
    No_storage
  | No_item
  | Malformed_item
  | Item saved_state

text \<open>
  The fields of the timer. \<open>intervalId\<close> holds the \<open>endTime\<close> that the running interval's
  callback closes over, \<open>None\<close> when there is no interval; the three callbacks are
  recorded as set or not.
\<close>

record EmergencyTimer =
  duration :: int
  remaining :: int
  intervalId :: "int option"
  isRunning :: bool
  startedAt :: "int option"
  onTick :: bool
  onComplete :: bool
  onStateChange :: bool

text \<open>What the timer does to the outside, in order; and the callbacks it defers.\<close>

datatype timer_event =
    Ticked
  | Completed_callback
  | State_changed string
  | Notification_played
  | Warned

datatype deferred = Deferred_start | Deferred_expired

record timer_world =
  timer :: EmergencyTimer
  storage :: local_storage
  pending :: "deferred list"
  events :: "timer_event list"

definition emit :: "bool \<Rightarrow> timer_event \<Rightarrow> timer_world \<Rightarrow> timer_world" where
  "emit callback_set e w = (if callback_set then w\<lparr>events := events w @ [e]\<rparr> else w)"

definition playNotification :: "timer_world \<Rightarrow> timer_world" where
  "playNotification w = w\<lparr>events := events w @ [Notification_played]\<rparr>"

definition saveState :: "int \<Rightarrow> timer_world \<Rightarrow> timer_world" where
  "saveState now w =
     (if storage w = No_storage then w
      else w\<lparr>storage := Item
             \<lparr> saved_state.remaining = remaining (timer w),
               saved_state.isRunning = isRunning (timer w),
               savedAt = now,
               saved_state.duration = duration (timer w) \<rparr>\<rparr>)"

definition clearState :: "timer_world \<Rightarrow> timer_world" where
  "clearState w = (if storage w = No_storage then w else w\<lparr>storage := No_item\<rparr>)"

definition start :: "int \<Rightarrow> timer_world \<Rightarrow> timer_world" where
  "start now w =
     (if isRunning (timer w) then w
      else
        (let endTime = now + remaining (timer w);
             w = w\<lparr>timer := (timer w)\<lparr>isRunning := True, startedAt := Some now,
                                       intervalId := Some endTime\<rparr>\<rparr>;
             w = saveState now w
         in emit (onStateChange (timer w)) (State_changed ''running'') w))"

definition pause :: "int \<Rightarrow> timer_world \<Rightarrow> timer_world" where
  "pause now w =
     (if \<not> isRunning (timer w) then w
      else
        (let w = w\<lparr>timer := (timer w)\<lparr>isRunning := False, intervalId := None\<rparr>\<rparr>;
             w = saveState now w
         in emit (onStateChange (timer w)) (State_changed ''paused'') w))"

definition complete :: "int \<Rightarrow> timer_world \<Rightarrow> timer_world" where
  "complete now w =
     (let w = pause now w;
          w = w\<lparr>timer := (timer w)\<lparr>remaining := 0\<rparr>\<rparr>;
          w = emit (onComplete (timer w)) Completed_callback w;
          w = emit (onStateChange (timer w)) (State_changed ''completed'') w;
          w = playNotification w
      in clearState w)"

text \<open>One run of the interval's callback, for a timer whose interval is set.\<close>

definition tick :: "int \<Rightarrow> timer_world \<Rightarrow> timer_world" where
  "tick now w =
     (case intervalId (timer w) of
        None \<Rightarrow> w
      | Some endTime \<Rightarrow>
          (let w = w\<lparr>timer := (timer w)\<lparr>remaining := max 0 (endTime - now)\<rparr>\<rparr>;
               w = emit (onTick (timer w)) Ticked w
           in if remaining (timer w) \<le> 0 then complete now w else w))"

definition loadState :: "int \<Rightarrow> timer_world \<Rightarrow> timer_world" where
  "loadState now w =
     (case storage w of
        No_storage \<Rightarrow> w
      | No_item \<Rightarrow> w
      | Malformed_item \<Rightarrow> w\<lparr>events := events w @ [Warned]\<rparr>
      | Item state \<Rightarrow>
          (let w =
             (if saved_state.isRunning state then
                (let elapsed = now - savedAt state;
                     w = w\<lparr>timer := (timer w)\<lparr>remaining :=
                            max 0 (saved_state.remaining state - elapsed)\<rparr>\<rparr>
                 in if remaining (timer w) > 0
                    then w\<lparr>pending := pending w @ [Deferred_start]\<rparr>
                    else w\<lparr>timer := (timer w)\<lparr>remaining := 0\<rparr>,
                           pending := pending w @ [Deferred_expired]\<rparr>)
              else w\<lparr>timer := (timer w)\<lparr>remaining := saved_state.remaining state\<rparr>\<rparr>)
           in if saved_state.duration state \<noteq> 0
              then w\<lparr>timer := (timer w)\<lparr>duration := saved_state.duration state\<rparr>\<rparr>
              else w))"

text \<open>\<open>new EmergencyTimer(duration)\<close> at time \<open>now\<close>, over a store.\<close>

definition new_EmergencyTimer :: "int \<Rightarrow> int \<Rightarrow> local_storage \<Rightarrow> timer_world" where
  "new_EmergencyTimer duration' now store =
     loadState now
       \<lparr> timer = \<lparr> duration = duration', remaining = duration', intervalId = None,
                   isRunning = False, startedAt = None, onTick = False, onComplete = False,
                   onStateChange = False \<rparr>,
         storage = store, pending = [], events = [] \<rparr>"

text \<open>The page sets the callbacks after the constructor has returned.\<close>

definition set_callbacks :: "bool \<Rightarrow> bool \<Rightarrow> bool \<Rightarrow> timer_world \<Rightarrow> timer_world" where
  "set_callbacks t c s w = w\<lparr>timer := (timer w)\<lparr>onTick := t, onComplete := c, onStateChange := s\<rparr>\<rparr>"

text \<open>The deferred callbacks (\<open>setTimeout(..., 0)\<close>) run, in the order they were set.\<close>

fun run_deferred :: "int \<Rightarrow> deferred \<Rightarrow> timer_world \<Rightarrow> timer_world" where
  "run_deferred now Deferred_start w = start now w"
| "run_deferred now Deferred_expired w =
     playNotification (emit (onComplete (timer w)) Completed_callback w)"

definition run_pending :: "int \<Rightarrow> timer_world \<Rightarrow> timer_world" where
  "run_pending now w = foldl (\<lambda>w d. run_deferred now d w) (w\<lparr>pending := []\<rparr>) (pending w)"


section \<open>DoughCalculator (scripts/calculator/engine.js)\<close>

text \<open>
  The fields of the class. The parameters are finite numbers; \<open>preFermentType\<close> is the
  string the code compares with \<open>'poolish'\<close>.
\<close>

record DoughCalculator =
  numBalls :: rat
  ballWeight :: rat
  hydration :: rat
  salt :: rat
  yeast :: rat
  oil :: rat
  sugar :: rat
  humidityAdjust :: bool
  usePreFerment :: bool
  preFermentType :: string
  preFermentFlourPercent :: rat
  bigaHydration :: rat

text \<open>\<open>new DoughCalculator()\<close>: every option takes its default.\<close>

definition new_DoughCalculator :: DoughCalculator where
  "new_DoughCalculator =
     \<lparr> numBalls = 4, ballWeight = 250, hydration = 65 / 100, salt = 2 / 100,
       yeast = 3 / 1000, oil = 0, sugar = 0, humidityAdjust = False,
       usePreFerment = False, preFermentType = ''poolish'',
       preFermentFlourPercent = 25 / 100, bigaHydration = 55 / 100 \<rparr>"

definition totalDoughWeight :: "DoughCalculator \<Rightarrow> rat" where
  "totalDoughWeight c = numBalls c * ballWeight c"

definition effectiveHydration :: "DoughCalculator \<Rightarrow> rat" where
  "effectiveHydration c = (if humidityAdjust c then hydration c - 25 / 1000 else hydration c)"

definition totalPercentage :: "DoughCalculator \<Rightarrow> rat" where
  "totalPercentage c = 1 + effectiveHydration c + salt c + yeast c + oil c + sugar c"

definition flourWeight :: "DoughCalculator \<Rightarrow> jsnum" where
  "flourWeight c = js_div (Num (totalDoughWeight c)) (Num (totalPercentage c))"

definition waterWeight :: "DoughCalculator \<Rightarrow> jsnum" where
  "waterWeight c = js_mul (flourWeight c) (Num (effectiveHydration c))"

text \<open>\<open>round(value, decimals)\<close>; \<open>round(value)\<close> is \<open>calc_round value 0\<close>.\<close>

definition calc_round :: "jsnum \<Rightarrow> nat \<Rightarrow> jsnum" where
  "calc_round v decimals =
     (let factor = Num (10 ^ decimals) in js_div (Math_round (js_mul v factor)) factor)"

text \<open>The locals of \<open>calculateWithPreFerment\<close>, as functions of the calculator.\<close>

definition preFermentFlour :: "DoughCalculator \<Rightarrow> jsnum \<Rightarrow> jsnum" where
  "preFermentFlour c totalFlour = js_mul totalFlour (Num (preFermentFlourPercent c))"

definition preFermentHydration :: "DoughCalculator \<Rightarrow> rat" where
  "preFermentHydration c = (if preFermentType c = ''poolish'' then 1 else bigaHydration c)"

definition preFermentWater :: "DoughCalculator \<Rightarrow> jsnum \<Rightarrow> jsnum" where
  "preFermentWater c totalFlour =
     js_mul (preFermentFlour c totalFlour) (Num (preFermentHydration c))"

definition calculateWithPreFerment ::
  "DoughCalculator \<Rightarrow> jsnum \<Rightarrow> jsnum \<Rightarrow> jsnum \<Rightarrow> jsnum \<Rightarrow> jsnum \<Rightarrow> jsnum \<Rightarrow> jsval \<Rightarrow> jsval" where
  "calculateWithPreFerment c totalFlour totalWater salt' yeast' oil' sugar' percentages =
     (let preFermentYeast = yeast';
          finalFlour = js_sub totalFlour (preFermentFlour c totalFlour);
          finalWater = js_sub totalWater (preFermentWater c totalFlour)
      in JObj
        [(''stage'', JStr ''two-stage''),
         (''preFerment'', JObj
            [(''type'', JStr (preFermentType c)),
             (''ingredients'', JObj
                [(''flour'', JNum (calc_round (preFermentFlour c totalFlour) 0)),
                 (''water'', JNum (calc_round (preFermentWater c totalFlour) 0)),
                 (''yeast'', JNum (calc_round preFermentYeast 1))]),
             (''hydration'', JNum (js_mul (Num (preFermentHydration c)) (Num 100))),
             (''flourPercent'', JNum (js_mul (Num (preFermentFlourPercent c)) (Num 100)))]),
         (''finalDough'', JObj
            [(''ingredients'', JObj
                [(''preFerment'', JStr ''all''),
                 (''flour'', JNum (calc_round finalFlour 0)),
                 (''water'', JNum (calc_round finalWater 0)),
                 (''salt'', JNum (calc_round salt' 1)),
                 (''yeast'', JNum (Num 0)),
                 (''oil'', JNum (calc_round oil' 0)),
                 (''sugar'', JNum (calc_round sugar' 0))])]),
         (''totalWeight'', JNum (calc_round (Num (totalDoughWeight c)) 0)),
         (''percentages'', percentages)])"

definition calculate :: "DoughCalculator \<Rightarrow> jsval" where
  "calculate c =
     (let flour = flourWeight c;
          water = waterWeight c;
          salt' = js_mul flour (Num (salt c));
          yeast' = js_mul flour (Num (yeast c));
          oil' = js_mul flour (Num (oil c));
          sugar' = js_mul flour (Num (sugar c));
          percentages = JObj
            [(''hydration'', JNum (js_mul (Num (effectiveHydration c)) (Num 100))),
             (''salt'', JNum (js_mul (Num (salt c)) (Num 100))),
             (''yeast'', JNum (js_mul (Num (yeast c)) (Num 100))),
             (''oil'', JNum (js_mul (Num (oil c)) (Num 100))),
             (''sugar'', JNum (js_mul (Num (sugar c)) (Num 100)))]
      in if \<not> usePreFerment c then
           JObj
             [(''stage'', JStr ''single''),
              (''ingredients'', JObj
                 [(''flour'', JNum (calc_round flour 0)),
                  (''water'', JNum (calc_round water 0)),
                  (''salt'', JNum (calc_round salt' 1)),
                  (''yeast'', JNum (calc_round yeast' 1)),
                  (''oil'', JNum (calc_round oil' 0)),
                  (''sugar'', JNum (calc_round sugar' 0))]),
              (''totalWeight'', JNum (calc_round (Num (totalDoughWeight c)) 0)),
              (''percentages'', percentages)]
         else calculateWithPreFerment c flour water salt' yeast' oil' sugar' percentages)"


section \<open>Predicates used to state the properties\<close>

text \<open>
  \<open>rounded_to unit exact v\<close>: the value \<open>v\<close> is \<open>exact\<close> rounded to the nearest multiple of
  \<open>unit\<close> (a whole multiple of \<open>unit\<close> at distance at most \<open>unit / 2\<close>); a value that is
  not finite is its own rounding. \<open>weight_at r path unit exact\<close>: the result \<open>r\<close> holds
  such a number at \<open>path\<close>.
\<close>

definition is_whole :: "rat \<Rightarrow> bool" where
  "is_whole a = (of_int \<lfloor>a\<rfloor> = a)"

definition rounded_to :: "rat \<Rightarrow> jsnum \<Rightarrow> jsnum \<Rightarrow> bool" where
  "rounded_to unit exact v =
     (case exact of
        Num a \<Rightarrow> (case v of Num b \<Rightarrow> is_whole (b / unit) \<and> \<bar>b - a\<bar> \<le> unit / 2 | _ \<Rightarrow> False)
      | _ \<Rightarrow> v = exact)"

definition weight_at :: "jsval \<Rightarrow> string list \<Rightarrow> rat \<Rightarrow> jsnum \<Rightarrow> bool" where
  "weight_at r path unit exact =
     (case js_path r path of Some (JNum v) \<Rightarrow> rounded_to unit exact v | _ \<Rightarrow> False)"

text \<open>
  The recipes the codec is specified for: every percentage is a whole number of the units
  the link stores, and every number the link prints has fewer than 22 digits.
\<close>

definition prints_as_digits :: "int \<Rightarrow> bool" where
  "prints_as_digits n = (\<bar>n\<bar> < 10 ^ 21)"

definition supported_precision :: "recipe \<Rightarrow> bool" where
  "supported_precision r =
     (is_whole (recipe.hydration r * 100) \<and> is_whole (recipe.salt r * 1000) \<and>
      is_whole (recipe.yeast r * 1000) \<and> is_whole (recipe.oil r * 100) \<and>
      is_whole (recipe.sugar r * 100) \<and> is_whole (recipe.preFermentFlourPercent r * 100) \<and>
      prints_as_digits (recipe.numBalls r) \<and> prints_as_digits (recipe.ballWeight r) \<and>
      prints_as_digits (round_half_up (recipe.hydration r * 100)) \<and>
      prints_as_digits (round_half_up (recipe.salt r * 1000)) \<and>
      prints_as_digits (round_half_up (recipe.yeast r * 1000)) \<and>
      prints_as_digits (round_half_up (recipe.oil r * 100)) \<and>
      prints_as_digits (round_half_up (recipe.sugar r * 100)) \<and>
      prints_as_digits (round_half_up (recipe.preFermentFlourPercent r * 100)))"

text \<open>
  The origins \<open>window.location.origin\<close> takes on a page served over http or https:
  the scheme, \<open>://\<close>, and a host with an optional port.
\<close>

definition origin_host_char :: "char \<Rightarrow> bool" where
  "origin_host_char c = (is_alpha c \<or> is_digit c \<or> c \<in> set ''.-:[]'')"

definition http_origin :: "string \<Rightarrow> bool" where
  "http_origin origin =
     (let host = (if take 8 origin = ''https://'' then drop 8 origin
                  else if take 7 origin = ''http://'' then drop 7 origin
                  else [])
      in host \<noteq> [] \<and> list_all origin_host_char host)"

fun origin_supported :: "string option \<Rightarrow> bool" where
  "origin_supported None = True"
| "origin_supported (Some origin) = http_origin origin"


section \<open>Inputs of the examples\<close>

text \<open>A biga recipe whose \<open>bigaHydration\<close> is not the calculator's default 0.55.\<close>

definition biga_recipe :: recipe where
  "biga_recipe =
     \<lparr> style = None, numBalls = 4, ballWeight = 250, hydration = 65 / 100, salt = 2 / 100,
       yeast = 3 / 1000, oil = 0, sugar = 0, usePreFerment = True, preFermentType = ''biga'',
       preFermentFlourPercent = 25 / 100, bigaHydration = 60 / 100, humidityAdjust = False,
       flourType = None \<rparr>"

text \<open>A New York recipe with oil and no sugar, shared from a page on a local server.\<close>

definition shared_recipe :: recipe where
  "shared_recipe =
     \<lparr> style = Some ''newYork'', numBalls = 6, ballWeight = 280, hydration = 65 / 100,
       salt = 2 / 100, yeast = 4 / 1000, oil = 3 / 100, sugar = 0, usePreFerment = False,
       preFermentType = ''poolish'', preFermentFlourPercent = 25 / 100,
       bigaHydration = 55 / 100, humidityAdjust = True, flourType = Some ''bread flour'' \<rparr>"

text \<open>
  The snapshot of the spec's example of a timer that expires while the page is closed:
  ten minutes remaining, running, saved at time 0.
\<close>

definition expired_snapshot :: saved_state where
  "expired_snapshot =
     \<lparr> saved_state.remaining = 600000, saved_state.isRunning = True, savedAt = 0,
       saved_state.duration = 7200000 \<rparr>"


section \<open>Arithmetic of rounding\<close>

lemma floor_rat_numeral [simp]:
  "\<lfloor>numeral a / numeral b :: rat\<rfloor> = numeral a div numeral b"
  using floor_divide_of_int_eq[of "numeral a" "numeral b", where ?'a = rat] by simp

lemma floor_rat_neg_numeral [simp]:
  "\<lfloor>- (numeral a / numeral b) :: rat\<rfloor> = - numeral a div numeral b"
  using floor_divide_of_int_eq[of "- numeral a" "numeral b", where ?'a = rat] by simp

lemma floor_rat_half [simp]: "\<lfloor>1 / 2 :: rat\<rfloor> = 0"
  using floor_divide_of_int_eq[of 1 2, where ?'a = rat] by simp

lemma half_up_error: "\<bar>of_int \<lfloor>x + 1 / 2\<rfloor> - x\<bar> \<le> (1 / 2 :: rat)"
proof -
  have "of_int \<lfloor>x + 1 / 2\<rfloor> \<le> x + 1 / 2"
    by (rule of_int_floor_le)
  moreover have "x + 1 / 2 < of_int \<lfloor>x + 1 / 2\<rfloor> + 1"
    using floor_correct[of "x + 1 / 2"] by simp
  ultimately show ?thesis by linarith
qed

lemma split_round_int:
  fixes a b :: rat
  shows "\<bar>\<lfloor>a + 1 / 2\<rfloor> + \<lfloor>b + 1 / 2\<rfloor> - \<lfloor>a + b + 1 / 2\<rfloor>\<bar> \<le> 1"
proof -
  let ?d = "\<lfloor>a + 1 / 2\<rfloor> + \<lfloor>b + 1 / 2\<rfloor> - \<lfloor>a + b + 1 / 2\<rfloor>"
  have "\<bar>of_int \<lfloor>a + 1 / 2\<rfloor> - a\<bar> \<le> (1 / 2 :: rat)"
       "\<bar>of_int \<lfloor>b + 1 / 2\<rfloor> - b\<bar> \<le> (1 / 2 :: rat)"
       "\<bar>of_int \<lfloor>a + b + 1 / 2\<rfloor> - (a + b)\<bar> \<le> (1 / 2 :: rat)"
    by (rule half_up_error)+
  moreover have "(of_int ?d :: rat) =
      of_int \<lfloor>a + 1 / 2\<rfloor> + of_int \<lfloor>b + 1 / 2\<rfloor> - of_int \<lfloor>a + b + 1 / 2\<rfloor>"
    by simp
  ultimately have "\<bar>(of_int ?d :: rat)\<bar> \<le> 3 / 2" by linarith
  then have "\<bar>(of_int ?d :: rat)\<bar> < of_int 2" by simp
  then have "\<bar>?d\<bar> < 2" unfolding of_int_abs[symmetric] of_int_less_iff .
  then show ?thesis by linarith
qed

lemma calc_round_0: "calc_round (Num x) 0 = Num (of_int \<lfloor>x + 1 / 2\<rfloor>)"
  by (simp add: calc_round_def round_half_up_def)

lemma calc_round_nonfinite:
  "calc_round PInf d = PInf" "calc_round NInf d = NInf" "calc_round NaN d = NaN"
  by (simp_all add: calc_round_def inf_of_sign_def)

lemma rounded_to_whole: "rounded_to 1 x (calc_round x 0)"
  using half_up_error[of "case x of Num a \<Rightarrow> a | _ \<Rightarrow> 0"]
  by (cases x) (simp_all add: rounded_to_def calc_round_0 calc_round_nonfinite is_whole_def)

lemma rounded_to_tenth: "rounded_to (1 / 10) x (calc_round x 1)"
proof (cases x)
  case (Num a)
  have "\<bar>of_int \<lfloor>a * 10 + 1 / 2\<rfloor> - a * 10\<bar> \<le> (1 / 2 :: rat)"
    by (rule half_up_error)
  then have "\<bar>of_int \<lfloor>a * 10 + 1 / 2\<rfloor> / 10 - a\<bar> \<le> (1 / 20 :: rat)"
    by linarith
  then show ?thesis
    using Num by (simp add: rounded_to_def calc_round_def round_half_up_def is_whole_def)
qed (simp_all add: rounded_to_def calc_round_nonfinite)

lemma weight_atI:
  "js_path r path = Some (JNum (calc_round x 0)) \<Longrightarrow> weight_at r path 1 x"
  "js_path r path = Some (JNum (calc_round x 1)) \<Longrightarrow> weight_at r path (1 / 10) x"
  by (simp_all add: weight_at_def rounded_to_whole rounded_to_tenth del: js_path.simps One_nat_def)


section \<open>DoughCalculator: what \<open>calculate\<close> returns\<close>

lemmas calc_defs =
  calculate_def calculateWithPreFerment_def new_DoughCalculator_def flourWeight_def
  waterWeight_def totalDoughWeight_def totalPercentage_def effectiveHydration_def
  calc_round_def round_half_up_def preFermentFlour_def preFermentWater_def
  preFermentHydration_def inf_of_sign_def

lemma flourWeight_finite:
  "totalPercentage c \<noteq> 0 \<Longrightarrow> flourWeight c = Num (totalDoughWeight c / totalPercentage c)"
  by (simp add: flourWeight_def)

lemma single_stage_paths:
  assumes "\<not> usePreFerment c"
  shows "js_path (calculate c) [''stage''] = Some (JStr ''single'')"
    and "js_path (calculate c) [''ingredients'', ''flour''] =
           Some (JNum (calc_round (flourWeight c) 0))"
    and "js_path (calculate c) [''ingredients'', ''water''] =
           Some (JNum (calc_round (waterWeight c) 0))"
    and "js_path (calculate c) [''ingredients'', ''salt''] =
           Some (JNum (calc_round (js_mul (flourWeight c) (Num (salt c))) 1))"
    and "js_path (calculate c) [''ingredients'', ''yeast''] =
           Some (JNum (calc_round (js_mul (flourWeight c) (Num (yeast c))) 1))"
    and "js_path (calculate c) [''ingredients'', ''oil''] =
           Some (JNum (calc_round (js_mul (flourWeight c) (Num (oil c))) 0))"
    and "js_path (calculate c) [''ingredients'', ''sugar''] =
           Some (JNum (calc_round (js_mul (flourWeight c) (Num (sugar c))) 0))"
    and "js_path (calculate c) [''totalWeight''] =
           Some (JNum (calc_round (Num (totalDoughWeight c)) 0))"
  using assms by (simp_all add: calculate_def Let_def)

lemma two_stage_paths:
  assumes "usePreFerment c"
  shows "js_path (calculate c) [''stage''] = Some (JStr ''two-stage'')"
    and "js_path (calculate c) [''preFerment'', ''ingredients'', ''flour''] =
           Some (JNum (calc_round (preFermentFlour c (flourWeight c)) 0))"
    and "js_path (calculate c) [''preFerment'', ''ingredients'', ''water''] =
           Some (JNum (calc_round (preFermentWater c (flourWeight c)) 0))"
    and "js_path (calculate c) [''preFerment'', ''ingredients'', ''yeast''] =
           Some (JNum (calc_round (js_mul (flourWeight c) (Num (yeast c))) 1))"
    and "js_path (calculate c) [''preFerment'', ''hydration''] =
           Some (JNum (js_mul (Num (preFermentHydration c)) (Num 100)))"
    and "js_path (calculate c) [''finalDough'', ''ingredients'', ''flour''] =
           Some (JNum (calc_round (js_sub (flourWeight c) (preFermentFlour c (flourWeight c))) 0))"
    and "js_path (calculate c) [''finalDough'', ''ingredients'', ''water''] =
           Some (JNum (calc_round (js_sub (waterWeight c) (preFermentWater c (flourWeight c))) 0))"
    and "js_path (calculate c) [''finalDough'', ''ingredients'', ''salt''] =
           Some (JNum (calc_round (js_mul (flourWeight c) (Num (salt c))) 1))"
    and "js_path (calculate c) [''finalDough'', ''ingredients'', ''yeast''] = Some (JNum (Num 0))"
    and "js_path (calculate c) [''finalDough'', ''ingredients'', ''oil''] =
           Some (JNum (calc_round (js_mul (flourWeight c) (Num (oil c))) 0))"
    and "js_path (calculate c) [''finalDough'', ''ingredients'', ''sugar''] =
           Some (JNum (calc_round (js_mul (flourWeight c) (Num (sugar c))) 0))"
    and "js_path (calculate c) [''totalWeight''] =
           Some (JNum (calc_round (Num (totalDoughWeight c)) 0))"
  using assms by (simp_all add: calculate_def calculateWithPreFerment_def Let_def)

text \<open>
  Claim C4. With \<open>usePreFerment\<close> set, the two-stage result puts all of the recipe's yeast
  into the pre-ferment: the pre-ferment's yeast is total flour times the yeast fraction,
  rounded to one decimal place, which is the yeast the single-stage recipe of the same
  parameters lists; and the final dough's yeast is exactly 0.
\<close>

theorem preferment_takes_all_yeast:
  assumes "usePreFerment c"
  shows "js_path (calculate c) [''preFerment'', ''ingredients'', ''yeast''] =
           Some (JNum (calc_round (js_mul (flourWeight c) (Num (yeast c))) 1)) \<and>
         weight_at (calculate c) [''preFerment'', ''ingredients'', ''yeast''] (1 / 10)
           (js_mul (flourWeight c) (Num (yeast c))) \<and>
         js_path (calculate c) [''preFerment'', ''ingredients'', ''yeast''] =
           js_path (calculate (c\<lparr>usePreFerment := False\<rparr>)) [''ingredients'', ''yeast''] \<and>
         js_path (calculate c) [''finalDough'', ''ingredients'', ''yeast''] = Some (JNum (Num 0))"
proof -
  have "flourWeight (c\<lparr>usePreFerment := False\<rparr>) = flourWeight c"
    by (simp add: flourWeight_def totalDoughWeight_def totalPercentage_def
        effectiveHydration_def)
  then show ?thesis
    using single_stage_paths(5)[of "c\<lparr>usePreFerment := False\<rparr>"]
    by (simp add: two_stage_paths[OF assms] weight_atI del: js_path.simps One_nat_def)
qed

theorem preferment_takes_all_yeast_witness:
  "usePreFerment (new_DoughCalculator\<lparr>usePreFerment := True\<rparr>) \<and>
   js_path (calculate (new_DoughCalculator\<lparr>usePreFerment := True\<rparr>))
     [''preFerment'', ''ingredients'', ''yeast''] = Some (JNum (Num (18 / 10))) \<and>
   js_path (calculate (new_DoughCalculator\<lparr>usePreFerment := True\<rparr>))
     [''finalDough'', ''ingredients'', ''yeast''] = Some (JNum (Num 0))"
  using preferment_takes_all_yeast[of "new_DoughCalculator\<lparr>usePreFerment := True\<rparr>"]
  by (simp add: calc_defs)

text \<open>
  Claim C5. With \<open>usePreFerment\<close> set and a flour denominator that is not zero (the
  calculation is defined), the pre-ferment's and the final dough's flour add up to the
  rounded total flour, and their water to the rounded total water, each within one gram.
\<close>

theorem two_stage_conservation:
  assumes "usePreFerment c" and "totalPercentage c \<noteq> 0"
  shows "\<exists>pf ff tf pw fw tw :: int.
           js_path (calculate c) [''preFerment'', ''ingredients'', ''flour''] =
             Some (JNum (Num (of_int pf))) \<and>
           js_path (calculate c) [''finalDough'', ''ingredients'', ''flour''] =
             Some (JNum (Num (of_int ff))) \<and>
           calc_round (flourWeight c) 0 = Num (of_int tf) \<and>
           \<bar>pf + ff - tf\<bar> \<le> 1 \<and>
           js_path (calculate c) [''preFerment'', ''ingredients'', ''water''] =
             Some (JNum (Num (of_int pw))) \<and>
           js_path (calculate c) [''finalDough'', ''ingredients'', ''water''] =
             Some (JNum (Num (of_int fw))) \<and>
           calc_round (waterWeight c) 0 = Num (of_int tw) \<and>
           \<bar>pw + fw - tw\<bar> \<le> 1"
proof -
  define F where "F = totalDoughWeight c / totalPercentage c"
  define P where "P = F * preFermentFlourPercent c"
  define W where "W = F * effectiveHydration c"
  define Q where "Q = P * preFermentHydration c"
  have fw: "flourWeight c = Num F"
    using assms(2) by (simp add: flourWeight_finite F_def)
  have ww: "waterWeight c = Num W"
    by (simp add: waterWeight_def fw W_def)
  have pf: "preFermentFlour c (Num F) = Num P"
    by (simp add: preFermentFlour_def P_def)
  have pw: "preFermentWater c (Num F) = Num Q"
    by (simp add: preFermentWater_def pf Q_def)
  have 1: "\<bar>\<lfloor>P + 1 / 2\<rfloor> + \<lfloor>(F - P) + 1 / 2\<rfloor> - \<lfloor>F + 1 / 2\<rfloor>\<bar> \<le> 1"
    using split_round_int[of P "F - P"] by simp
  have 2: "\<bar>\<lfloor>Q + 1 / 2\<rfloor> + \<lfloor>(W - Q) + 1 / 2\<rfloor> - \<lfloor>W + 1 / 2\<rfloor>\<bar> \<le> 1"
    using split_round_int[of Q "W - Q"] by simp
  show ?thesis
    apply (rule exI[of _ "\<lfloor>P + 1 / 2\<rfloor>"])
    apply (rule exI[of _ "\<lfloor>(F - P) + 1 / 2\<rfloor>"])
    apply (rule exI[of _ "\<lfloor>F + 1 / 2\<rfloor>"])
    apply (rule exI[of _ "\<lfloor>Q + 1 / 2\<rfloor>"])
    apply (rule exI[of _ "\<lfloor>(W - Q) + 1 / 2\<rfloor>"])
    apply (rule exI[of _ "\<lfloor>W + 1 / 2\<rfloor>"])
    using 1 2
    by (simp add: two_stage_paths[OF assms(1)] fw ww pf pw calc_round_0 del: js_path.simps)
qed

theorem two_stage_conservation_witness:
  "usePreFerment (new_DoughCalculator\<lparr>usePreFerment := True\<rparr>) \<and>
   totalPercentage (new_DoughCalculator\<lparr>usePreFerment := True\<rparr>) \<noteq> 0 \<and>
   (\<exists>pf ff tf pw fw tw :: int.
      js_path (calculate (new_DoughCalculator\<lparr>usePreFerment := True\<rparr>))
        [''preFerment'', ''ingredients'', ''flour''] = Some (JNum (Num (of_int pf))) \<and>
      js_path (calculate (new_DoughCalculator\<lparr>usePreFerment := True\<rparr>))
        [''finalDough'', ''ingredients'', ''flour''] = Some (JNum (Num (of_int ff))) \<and>
      calc_round (flourWeight (new_DoughCalculator\<lparr>usePreFerment := True\<rparr>)) 0 =
        Num (of_int tf) \<and>
      \<bar>pf + ff - tf\<bar> \<le> 1 \<and>
      js_path (calculate (new_DoughCalculator\<lparr>usePreFerment := True\<rparr>))
        [''preFerment'', ''ingredients'', ''water''] = Some (JNum (Num (of_int pw))) \<and>
      js_path (calculate (new_DoughCalculator\<lparr>usePreFerment := True\<rparr>))
        [''finalDough'', ''ingredients'', ''water''] = Some (JNum (Num (of_int fw))) \<and>
      calc_round (waterWeight (new_DoughCalculator\<lparr>usePreFerment := True\<rparr>)) 0 =
        Num (of_int tw) \<and>
      \<bar>pw + fw - tw\<bar> \<le> 1)"
proof -
  have h1: "usePreFerment (new_DoughCalculator\<lparr>usePreFerment := True\<rparr>)"
    by simp
  have h2: "totalPercentage (new_DoughCalculator\<lparr>usePreFerment := True\<rparr>) \<noteq> 0"
    by (simp add: totalPercentage_def effectiveHydration_def new_DoughCalculator_def)
  show ?thesis
    using h1 h2 two_stage_conservation[OF h1 h2] by blast
qed

text \<open>
  Claim C6. For valid parameters (positive \<open>numBalls\<close>, \<open>ballWeight\<close> and flour
  denominator) the rounded weights of the single-stage result add up to
  \<open>numBalls * ballWeight\<close> within half a unit of rounding per ingredient: half a gram for
  each of flour, water, oil and sugar, a twentieth of a gram for each of salt and yeast.
\<close>

theorem single_stage_weights_sum:
  assumes "0 < numBalls c" and "0 < ballWeight c" and "0 < totalPercentage c"
    and "\<not> usePreFerment c"
  shows "\<exists>f w s y l g.
           js_path (calculate c) [''ingredients'', ''flour''] = Some (JNum (Num f)) \<and>
           js_path (calculate c) [''ingredients'', ''water''] = Some (JNum (Num w)) \<and>
           js_path (calculate c) [''ingredients'', ''salt''] = Some (JNum (Num s)) \<and>
           js_path (calculate c) [''ingredients'', ''yeast''] = Some (JNum (Num y)) \<and>
           js_path (calculate c) [''ingredients'', ''oil''] = Some (JNum (Num l)) \<and>
           js_path (calculate c) [''ingredients'', ''sugar''] = Some (JNum (Num g)) \<and>
           \<bar>f + w + s + y + l + g - numBalls c * ballWeight c\<bar> \<le> 4 * (1 / 2) + 2 * (1 / 20)"
proof -
  define F where "F = totalDoughWeight c / totalPercentage c"
  define r0 :: "rat \<Rightarrow> rat" where "r0 = (\<lambda>x. of_int \<lfloor>x + 1 / 2\<rfloor>)"
  define r1 :: "rat \<Rightarrow> rat" where "r1 = (\<lambda>x. of_int \<lfloor>x * 10 + 1 / 2\<rfloor> / 10)"
  have fw: "flourWeight c = Num F"
    using assms(3) by (simp add: flourWeight_finite F_def)
  have ww: "waterWeight c = Num (F * effectiveHydration c)"
    by (simp add: waterWeight_def fw)
  have e0: "\<bar>r0 x - x\<bar> \<le> 1 / 2" for x
    unfolding r0_def by (rule half_up_error)
  have e1: "\<bar>r1 x - x\<bar> \<le> 1 / 20" for x
    using half_up_error[of "x * 10"] unfolding r1_def by linarith
  have "F * totalPercentage c = totalDoughWeight c"
    using assms(3) by (simp add: F_def)
  then have total:
    "F + F * effectiveHydration c + F * salt c + F * yeast c + F * oil c + F * sugar c =
       numBalls c * ballWeight c"
    by (simp add: totalPercentage_def totalDoughWeight_def algebra_simps)
  have bound:
    "\<bar>r0 F + r0 (F * effectiveHydration c) + r1 (F * salt c) + r1 (F * yeast c) +
      r0 (F * oil c) + r0 (F * sugar c) - numBalls c * ballWeight c\<bar> \<le> 4 * (1 / 2) + 2 * (1 / 20)"
    using e0[of F] e0[of "F * effectiveHydration c"] e1[of "F * salt c"] e1[of "F * yeast c"]
      e0[of "F * oil c"] e0[of "F * sugar c"] total
    by linarith
  show ?thesis
    apply (rule exI[of _ "r0 F"])
    apply (rule exI[of _ "r0 (F * effectiveHydration c)"])
    apply (rule exI[of _ "r1 (F * salt c)"])
    apply (rule exI[of _ "r1 (F * yeast c)"])
    apply (rule exI[of _ "r0 (F * oil c)"])
    apply (rule exI[of _ "r0 (F * sugar c)"])
    using bound
    by (simp add: single_stage_paths[OF assms(4)] fw ww calc_round_def round_half_up_def
        r0_def r1_def del: js_path.simps)
qed

theorem single_stage_weights_sum_witness:
  "0 < numBalls new_DoughCalculator \<and> 0 < ballWeight new_DoughCalculator \<and>
   0 < totalPercentage new_DoughCalculator \<and> \<not> usePreFerment new_DoughCalculator \<and>
   (\<exists>f w s y l g.
      js_path (calculate new_DoughCalculator) [''ingredients'', ''flour''] = Some (JNum (Num f)) \<and>
      js_path (calculate new_DoughCalculator) [''ingredients'', ''water''] = Some (JNum (Num w)) \<and>
      js_path (calculate new_DoughCalculator) [''ingredients'', ''salt''] = Some (JNum (Num s)) \<and>
      js_path (calculate new_DoughCalculator) [''ingredients'', ''yeast''] = Some (JNum (Num y)) \<and>
      js_path (calculate new_DoughCalculator) [''ingredients'', ''oil''] = Some (JNum (Num l)) \<and>
      js_path (calculate new_DoughCalculator) [''ingredients'', ''sugar''] = Some (JNum (Num g)) \<and>
      \<bar>f + w + s + y + l + g - numBalls new_DoughCalculator * ballWeight new_DoughCalculator\<bar>
        \<le> 4 * (1 / 2) + 2 * (1 / 20))"
proof -
  have h: "0 < numBalls new_DoughCalculator" "0 < ballWeight new_DoughCalculator"
    "0 < totalPercentage new_DoughCalculator" "\<not> usePreFerment new_DoughCalculator"
    by (simp_all add: totalPercentage_def effectiveHydration_def new_DoughCalculator_def)
  show ?thesis
    using h single_stage_weights_sum[OF h] by blast
qed

text \<open>
  Claim C7. For every input, the flour, water, oil and sugar weights that \<open>calculate\<close>
  returns are the unrounded values rounded to the nearest whole gram, and the salt and
  yeast weights are rounded to one decimal place, in the single-stage result and in both
  parts of the two-stage result. For 4 balls of 250 g at hydration 0.65, salt 0.02, yeast
  0.003, no oil and no sugar the result is flour 598, water 389, salt 12.0, yeast 1.8.
\<close>

theorem calculate_rounding_policy:
  "(if usePreFerment c then
      weight_at (calculate c) [''preFerment'', ''ingredients'', ''flour''] 1
        (preFermentFlour c (flourWeight c)) \<and>
      weight_at (calculate c) [''preFerment'', ''ingredients'', ''water''] 1
        (preFermentWater c (flourWeight c)) \<and>
      weight_at (calculate c) [''preFerment'', ''ingredients'', ''yeast''] (1 / 10)
        (js_mul (flourWeight c) (Num (yeast c))) \<and>
      weight_at (calculate c) [''finalDough'', ''ingredients'', ''flour''] 1
        (js_sub (flourWeight c) (preFermentFlour c (flourWeight c))) \<and>
      weight_at (calculate c) [''finalDough'', ''ingredients'', ''water''] 1
        (js_sub (waterWeight c) (preFermentWater c (flourWeight c))) \<and>
      weight_at (calculate c) [''finalDough'', ''ingredients'', ''salt''] (1 / 10)
        (js_mul (flourWeight c) (Num (salt c))) \<and>
      weight_at (calculate c) [''finalDough'', ''ingredients'', ''oil''] 1
        (js_mul (flourWeight c) (Num (oil c))) \<and>
      weight_at (calculate c) [''finalDough'', ''ingredients'', ''sugar''] 1
        (js_mul (flourWeight c) (Num (sugar c)))
    else
      weight_at (calculate c) [''ingredients'', ''flour''] 1 (flourWeight c) \<and>
      weight_at (calculate c) [''ingredients'', ''water''] 1 (waterWeight c) \<and>
      weight_at (calculate c) [''ingredients'', ''salt''] (1 / 10)
        (js_mul (flourWeight c) (Num (salt c))) \<and>
      weight_at (calculate c) [''ingredients'', ''yeast''] (1 / 10)
        (js_mul (flourWeight c) (Num (yeast c))) \<and>
      weight_at (calculate c) [''ingredients'', ''oil''] 1
        (js_mul (flourWeight c) (Num (oil c))) \<and>
      weight_at (calculate c) [''ingredients'', ''sugar''] 1
        (js_mul (flourWeight c) (Num (sugar c)))) \<and>
   (let r = calculate
              \<lparr> numBalls = 4, ballWeight = 250, hydration = 65 / 100, salt = 2 / 100,
                yeast = 3 / 1000, oil = 0, sugar = 0, humidityAdjust = False,
                usePreFerment = False, preFermentType = ''poolish'',
                preFermentFlourPercent = 25 / 100, bigaHydration = 55 / 100 \<rparr>
    in js_path r [''ingredients'', ''flour''] = Some (JNum (Num 598)) \<and>
       js_path r [''ingredients'', ''water''] = Some (JNum (Num 389)) \<and>
       js_path r [''ingredients'', ''salt''] = Some (JNum (Num 12)) \<and>
       js_path r [''ingredients'', ''yeast''] = Some (JNum (Num (18 / 10))))"
proof (rule conjI)
  show "if usePreFerment c then
      weight_at (calculate c) [''preFerment'', ''ingredients'', ''flour''] 1
        (preFermentFlour c (flourWeight c)) \<and>
      weight_at (calculate c) [''preFerment'', ''ingredients'', ''water''] 1
        (preFermentWater c (flourWeight c)) \<and>
      weight_at (calculate c) [''preFerment'', ''ingredients'', ''yeast''] (1 / 10)
        (js_mul (flourWeight c) (Num (yeast c))) \<and>
      weight_at (calculate c) [''finalDough'', ''ingredients'', ''flour''] 1
        (js_sub (flourWeight c) (preFermentFlour c (flourWeight c))) \<and>
      weight_at (calculate c) [''finalDough'', ''ingredients'', ''water''] 1
        (js_sub (waterWeight c) (preFermentWater c (flourWeight c))) \<and>
      weight_at (calculate c) [''finalDough'', ''ingredients'', ''salt''] (1 / 10)
        (js_mul (flourWeight c) (Num (salt c))) \<and>
      weight_at (calculate c) [''finalDough'', ''ingredients'', ''oil''] 1
        (js_mul (flourWeight c) (Num (oil c))) \<and>
      weight_at (calculate c) [''finalDough'', ''ingredients'', ''sugar''] 1
        (js_mul (flourWeight c) (Num (sugar c)))
    else
      weight_at (calculate c) [''ingredients'', ''flour''] 1 (flourWeight c) \<and>
      weight_at (calculate c) [''ingredients'', ''water''] 1 (waterWeight c) \<and>
      weight_at (calculate c) [''ingredients'', ''salt''] (1 / 10)
        (js_mul (flourWeight c) (Num (salt c))) \<and>
      weight_at (calculate c) [''ingredients'', ''yeast''] (1 / 10)
        (js_mul (flourWeight c) (Num (yeast c))) \<and>
      weight_at (calculate c) [''ingredients'', ''oil''] 1
        (js_mul (flourWeight c) (Num (oil c))) \<and>
      weight_at (calculate c) [''ingredients'', ''sugar''] 1
        (js_mul (flourWeight c) (Num (sugar c)))"
  proof (cases "usePreFerment c")
    case True
    then show ?thesis
      by (simp add: weight_atI two_stage_paths del: js_path.simps One_nat_def)
  next
    case False
    then show ?thesis
      by (simp add: weight_atI single_stage_paths del: js_path.simps One_nat_def)
  qed
next
  show "let r = calculate
              \<lparr> numBalls = 4, ballWeight = 250, hydration = 65 / 100, salt = 2 / 100,
                yeast = 3 / 1000, oil = 0, sugar = 0, humidityAdjust = False,
                usePreFerment = False, preFermentType = ''poolish'',
                preFermentFlourPercent = 25 / 100, bigaHydration = 55 / 100 \<rparr>
    in js_path r [''ingredients'', ''flour''] = Some (JNum (Num 598)) \<and>
       js_path r [''ingredients'', ''water''] = Some (JNum (Num 389)) \<and>
       js_path r [''ingredients'', ''salt''] = Some (JNum (Num 12)) \<and>
       js_path r [''ingredients'', ''yeast''] = Some (JNum (Num (18 / 10)))"
    by (simp add: calc_defs)
qed

theorem calculate_rounding_policy_witness:
  "weight_at (calculate (new_DoughCalculator\<lparr>usePreFerment := True\<rparr>))
     [''preFerment'', ''ingredients'', ''flour''] 1 (Num (250000 / 1673)) \<and>
   js_path (calculate (new_DoughCalculator\<lparr>usePreFerment := True\<rparr>))
     [''preFerment'', ''ingredients'', ''flour''] = Some (JNum (Num 149)) \<and>
   weight_at (calculate new_DoughCalculator) [''ingredients'', ''salt''] (1 / 10)
     (Num (20000 / 1673)) \<and>
   js_path (calculate new_DoughCalculator) [''ingredients'', ''salt''] = Some (JNum (Num 12))"
  using calculate_rounding_policy[of "new_DoughCalculator\<lparr>usePreFerment := True\<rparr>"]
    calculate_rounding_policy[of new_DoughCalculator]
  by (simp add: calc_defs weight_at_def rounded_to_def is_whole_def)

text \<open>
  Claim C8. With \<open>usePreFerment\<close> set, the pre-ferment hydration is exactly 1 for a
  poolish, whatever the base hydration and the other parameters are: the result reports 100
  per cent and a pre-ferment water equal to the pre-ferment flour. For a biga it is
  exactly \<open>bigaHydration\<close>, and the result reports the product of \<open>bigaHydration\<close> and
  100 that the code computes. In both cases the pre-ferment water is the pre-ferment
  flour times that hydration, and the result lists it rounded to the gram.
\<close>

theorem preferment_hydration:
  assumes "usePreFerment c"
  shows "(preFermentType c = ''poolish'' \<longrightarrow>
            preFermentHydration c = 1 \<and>
            js_path (calculate c) [''preFerment'', ''hydration''] = Some (JNum (Num 100)) \<and>
            js_path (calculate c) [''preFerment'', ''ingredients'', ''water''] =
              js_path (calculate c) [''preFerment'', ''ingredients'', ''flour'']) \<and>
         (preFermentType c = ''biga'' \<longrightarrow>
            preFermentHydration c = bigaHydration c \<and>
            js_path (calculate c) [''preFerment'', ''hydration''] =
              Some (JNum (js_mul (Num (bigaHydration c)) (Num 100)))) \<and>
         preFermentWater c (flourWeight c) =
           js_mul (preFermentFlour c (flourWeight c)) (Num (preFermentHydration c)) \<and>
         js_path (calculate c) [''preFerment'', ''ingredients'', ''water''] =
           Some (JNum (calc_round
             (js_mul (preFermentFlour c (flourWeight c)) (Num (preFermentHydration c))) 0))"
proof -
  have one: "js_mul x (Num 1) = x" for x
    by (cases x) (simp_all add: inf_of_sign_def)
  show ?thesis
    by (simp add: two_stage_paths[OF assms] preFermentHydration_def preFermentWater_def one
        del: js_path.simps)
qed

theorem preferment_hydration_witness:
  "usePreFerment (new_DoughCalculator\<lparr>usePreFerment := True, hydration := 70 / 100\<rparr>) \<and>
   preFermentType (new_DoughCalculator\<lparr>usePreFerment := True, hydration := 70 / 100\<rparr>) =
     ''poolish'' \<and>
   js_path (calculate (new_DoughCalculator\<lparr>usePreFerment := True, hydration := 70 / 100\<rparr>))
     [''preFerment'', ''hydration''] = Some (JNum (Num 100)) \<and>
   js_path (calculate (new_DoughCalculator\<lparr>usePreFerment := True, hydration := 70 / 100\<rparr>))
     [''preFerment'', ''ingredients'', ''water''] = Some (JNum (Num 145)) \<and>
   js_path (calculate (new_DoughCalculator\<lparr>usePreFerment := True, hydration := 70 / 100\<rparr>))
     [''preFerment'', ''ingredients'', ''flour''] = Some (JNum (Num 145)) \<and>
   usePreFerment
     (new_DoughCalculator\<lparr>usePreFerment := True, preFermentType := ''biga'',
        bigaHydration := 1 / 2\<rparr>) \<and>
   preFermentType
     (new_DoughCalculator\<lparr>usePreFerment := True, preFermentType := ''biga'',
        bigaHydration := 1 / 2\<rparr>) = ''biga'' \<and>
   js_path
     (calculate (new_DoughCalculator\<lparr>usePreFerment := True, preFermentType := ''biga'',
        bigaHydration := 1 / 2\<rparr>))
     [''preFerment'', ''hydration''] = Some (JNum (Num 50)) \<and>
   js_path
     (calculate (new_DoughCalculator\<lparr>usePreFerment := True, preFermentType := ''biga'',
        bigaHydration := 1 / 2\<rparr>))
     [''preFerment'', ''ingredients'', ''water''] = Some (JNum (Num 75))"
  using preferment_hydration[of "new_DoughCalculator\<lparr>usePreFerment := True, hydration := 70 / 100\<rparr>"]
    preferment_hydration[of "new_DoughCalculator\<lparr>usePreFerment := True,
      preFermentType := ''biga'', bigaHydration := 1 / 2\<rparr>"]
  by (simp add: calc_defs)

text \<open>
  Claim C1, as the code has it. \<open>calculate\<close> checks nothing and rejects nothing: for
  every input, also one with \<open>numBalls\<close>, \<open>ballWeight\<close> or the flour denominator at or
  below zero, it returns a recipe of the stage that \<open>usePreFerment\<close> selects, and every
  weight of that recipe is the rounding of what the formula gives for that input, the
  flour being the quotient of \<open>totalDoughWeight\<close> by the denominator as the division
  returns it, zero divisor or not. Such weights can be negative (the counterexample
  below) and not finite (the witness, where the denominator is exactly 0).
\<close>

theorem calculate_never_rejects:
  "js_path (calculate c) [''stage''] =
     Some (JStr (if usePreFerment c then ''two-stage'' else ''single'')) \<and>
   js_path (calculate c) [''totalWeight''] =
     Some (JNum (calc_round (Num (totalDoughWeight c)) 0)) \<and>
   flourWeight c = js_div (Num (totalDoughWeight c)) (Num (totalPercentage c)) \<and>
   (\<not> usePreFerment c \<longrightarrow>
      js_path (calculate c) [''ingredients'', ''flour''] =
        Some (JNum (calc_round (flourWeight c) 0)) \<and>
      js_path (calculate c) [''ingredients'', ''water''] =
        Some (JNum (calc_round (js_mul (flourWeight c) (Num (effectiveHydration c))) 0)) \<and>
      js_path (calculate c) [''ingredients'', ''salt''] =
        Some (JNum (calc_round (js_mul (flourWeight c) (Num (salt c))) 1)) \<and>
      js_path (calculate c) [''ingredients'', ''yeast''] =
        Some (JNum (calc_round (js_mul (flourWeight c) (Num (yeast c))) 1)) \<and>
      js_path (calculate c) [''ingredients'', ''oil''] =
        Some (JNum (calc_round (js_mul (flourWeight c) (Num (oil c))) 0)) \<and>
      js_path (calculate c) [''ingredients'', ''sugar''] =
        Some (JNum (calc_round (js_mul (flourWeight c) (Num (sugar c))) 0))) \<and>
   (usePreFerment c \<longrightarrow>
      js_path (calculate c) [''preFerment'', ''ingredients'', ''flour''] =
        Some (JNum (calc_round (preFermentFlour c (flourWeight c)) 0)) \<and>
      js_path (calculate c) [''preFerment'', ''ingredients'', ''water''] =
        Some (JNum (calc_round (preFermentWater c (flourWeight c)) 0)) \<and>
      js_path (calculate c) [''finalDough'', ''ingredients'', ''flour''] =
        Some (JNum (calc_round
          (js_sub (flourWeight c) (preFermentFlour c (flourWeight c))) 0)) \<and>
      js_path (calculate c) [''finalDough'', ''ingredients'', ''water''] =
        Some (JNum (calc_round
          (js_sub (js_mul (flourWeight c) (Num (effectiveHydration c)))
             (preFermentWater c (flourWeight c))) 0)) \<and>
      js_path (calculate c) [''finalDough'', ''ingredients'', ''salt''] =
        Some (JNum (calc_round (js_mul (flourWeight c) (Num (salt c))) 1)))"
  by (cases "usePreFerment c")
     (simp_all add: two_stage_paths single_stage_paths flourWeight_def waterWeight_def
        del: js_path.simps One_nat_def)

theorem calculate_never_rejects_witness:
  "totalPercentage (new_DoughCalculator\<lparr>hydration := - 1, salt := 0, yeast := 0\<rparr>) \<le> 0 \<and>
   \<not> usePreFerment (new_DoughCalculator\<lparr>hydration := - 1, salt := 0, yeast := 0\<rparr>) \<and>
   js_path (calculate (new_DoughCalculator\<lparr>hydration := - 1, salt := 0, yeast := 0\<rparr>))
     [''stage''] = Some (JStr ''single'') \<and>
   js_path (calculate (new_DoughCalculator\<lparr>hydration := - 1, salt := 0, yeast := 0\<rparr>))
     [''ingredients'', ''flour''] = Some (JNum PInf) \<and>
   js_path (calculate (new_DoughCalculator\<lparr>hydration := - 1, salt := 0, yeast := 0\<rparr>))
     [''ingredients'', ''water''] = Some (JNum NInf) \<and>
   js_path (calculate (new_DoughCalculator\<lparr>hydration := - 1, salt := 0, yeast := 0\<rparr>))
     [''ingredients'', ''salt''] = Some (JNum NaN) \<and>
   numBalls (new_DoughCalculator\<lparr>numBalls := - 4, usePreFerment := True\<rparr>) \<le> 0 \<and>
   usePreFerment (new_DoughCalculator\<lparr>numBalls := - 4, usePreFerment := True\<rparr>) \<and>
   js_path (calculate (new_DoughCalculator\<lparr>numBalls := - 4, usePreFerment := True\<rparr>))
     [''stage''] = Some (JStr ''two-stage'') \<and>
   js_path (calculate (new_DoughCalculator\<lparr>numBalls := - 4, usePreFerment := True\<rparr>))
     [''preFerment'', ''ingredients'', ''flour''] = Some (JNum (Num (- 149))) \<and>
   js_path (calculate (new_DoughCalculator\<lparr>numBalls := - 4, usePreFerment := True\<rparr>))
     [''finalDough'', ''ingredients'', ''flour''] = Some (JNum (Num (- 448)))"
  using calculate_never_rejects[of "new_DoughCalculator\<lparr>hydration := - 1, salt := 0, yeast := 0\<rparr>"]
    calculate_never_rejects[of "new_DoughCalculator\<lparr>numBalls := - 4, usePreFerment := True\<rparr>"]
  by (simp add: calc_defs)

text \<open>
  The claim as it was stated fails: with \<open>numBalls = -4\<close> (and the defaults otherwise)
  \<open>calculate\<close> returns a single-stage recipe of negative weights.
\<close>

theorem calculate_negative_balls_counterexample:
  "numBalls (new_DoughCalculator\<lparr>numBalls := - 4\<rparr>) \<le> 0 \<and>
   calculate (new_DoughCalculator\<lparr>numBalls := - 4\<rparr>) =
     JObj
       [(''stage'', JStr ''single''),
        (''ingredients'', JObj
           [(''flour'', JNum (Num (- 598))), (''water'', JNum (Num (- 389))),
            (''salt'', JNum (Num (- 12))), (''yeast'', JNum (Num (- (18 / 10)))),
            (''oil'', JNum (Num 0)), (''sugar'', JNum (Num 0))]),
        (''totalWeight'', JNum (Num (- 1000))),
        (''percentages'', JObj
           [(''hydration'', JNum (Num 65)), (''salt'', JNum (Num 2)),
            (''yeast'', JNum (Num (3 / 10))), (''oil'', JNum (Num 0)),
            (''sugar'', JNum (Num 0))])]"
  by (simp add: calc_defs)



section \<open>RecipeURLCodec: numbers as digits\<close>

lemma digit_char_props:
  assumes "n < 10"
  shows "is_digit (digit_char n)" and "digit_value (digit_char n) = n"
    and "\<not> is_whitespace (digit_char n)" and "digit_char n \<noteq> CHR ''-''"
    and "digit_char n \<noteq> CHR ''+''"
proof -
  have "\<forall>k \<in> set [0..<10]. is_digit (digit_char k) \<and> digit_value (digit_char k) = k \<and>
      \<not> is_whitespace (digit_char k) \<and> digit_char k \<noteq> CHR ''-'' \<and> digit_char k \<noteq> CHR ''+''"
    by code_simp
  then show "is_digit (digit_char n)" and "digit_value (digit_char n) = n"
    and "\<not> is_whitespace (digit_char n)" and "digit_char n \<noteq> CHR ''-''"
    and "digit_char n \<noteq> CHR ''+''"
    using assms by simp_all
qed

lemma digits_of_digits: "list_all is_digit (digits_of n)"
proof (induction n rule: digits_of.induct)
  case (1 n)
  show ?case
  proof (cases "n < 10")
    case True
    then show ?thesis by (subst digits_of.simps) (simp add: digit_char_props)
  next
    case False
    then show ?thesis using 1 by (subst digits_of.simps) (simp add: digit_char_props)
  qed
qed

lemma digits_of_nonempty: "digits_of n \<noteq> []"
  by (subst digits_of.simps) simp

lemma digits_of_value: "foldl (\<lambda>a c. 10 * a + digit_value c) 0 (digits_of n) = n"
proof (induction n rule: digits_of.induct)
  case (1 n)
  show ?case
  proof (cases "n < 10")
    case True
    then show ?thesis by (subst digits_of.simps) (simp add: digit_char_props)
  next
    case False
    then show ?thesis using 1 by (subst digits_of.simps) (simp add: digit_char_props)
  qed
qed

lemma digits_of_hd:
  "\<not> is_whitespace (hd (digits_of n)) \<and> hd (digits_of n) \<noteq> CHR ''-'' \<and> hd (digits_of n) \<noteq> CHR ''+''"
  using digits_of_digits[of n] digits_of_nonempty[of n]
  by (cases "digits_of n") (auto simp: is_digit_def is_whitespace_def)

lemma takeWhile_digits: "takeWhile is_digit (digits_of n) = digits_of n"
  using digits_of_digits[of n] by (simp add: takeWhile_eq_all_conv list_all_iff)

lemma dropWhile_hd: "xs \<noteq> [] \<Longrightarrow> \<not> P (hd xs) \<Longrightarrow> dropWhile P xs = xs"
  by (cases xs) simp_all

lemma parseInt_toString: "parseInt (Number_toString n) = Num (of_int n)"
proof (cases "n < 0")
  case True
  then show ?thesis
    using digits_of_nonempty[of "nat (- n)"]
    by (simp add: parseInt_def Number_toString_def is_whitespace_def takeWhile_digits
        digits_of_value Let_def)
next
  case False
  then show ?thesis
    using digits_of_nonempty[of "nat n"] digits_of_hd[of "nat n"]
    by (simp add: parseInt_def Number_toString_def takeWhile_digits digits_of_value Let_def
        dropWhile_hd)
qed


section \<open>RecipeURLCodec: the query string\<close>

lemma hex_value_digit:
  assumes "n < 16"
  shows "hex_value (hex_digit n) = Some n"
proof -
  have "\<forall>k \<in> set [0..<16]. hex_value (hex_digit k) = Some k"
    by code_simp
  then show ?thesis using assms by simp
qed

lemma hex_digit_plain:
  assumes "n < 16"
  shows "hex_digit n \<notin> set ''&=#?''"
proof -
  have "\<forall>k \<in> set [0..<16]. hex_digit k \<notin> set ''&=#?''"
    by code_simp
  then show ?thesis using assms by simp
qed

lemma safe_plain: "urlencoded_safe c \<Longrightarrow> c \<notin> set ''&=#?+%''"
proof -
  have "\<forall>x \<in> set ''&=#?+%''. \<not> urlencoded_safe x"
    by code_simp
  then show "urlencoded_safe c \<Longrightarrow> c \<notin> set ''&=#?+%''"
    by blast
qed

lemma char_from_nibbles: "char_of (16 * (of_char c div 16) + of_char c mod (16::nat)) = c"
  by simp

lemma percent_decode_byte:
  "percent_decode (urlencoded_byte c @ rest) = c # percent_decode rest"
proof -
  have "(of_char c :: nat) < 256"
    by (rule nat_of_char_less_256)
  then have lt: "of_char c div 16 < (16::nat)" "of_char c mod 16 < (16::nat)"
    by arith+
  show ?thesis
    using safe_plain[of c]
    by (simp add: urlencoded_byte_def hex_value_digit[OF lt(1)] hex_value_digit[OF lt(2)]
        char_from_nibbles)
qed

lemma percent_decode_encoded:
  "percent_decode (urlencoded_string s @ rest) = s @ percent_decode rest"
  by (induction s) (simp_all add: urlencoded_string_def percent_decode_byte)

lemma percent_decode_encoded': "percent_decode (urlencoded_string s) = s"
  using percent_decode_encoded[of s "[]"] by simp

lemma encoded_byte_plain: "set (urlencoded_byte c) \<inter> set ''&=#?'' = {}"
proof -
  have "(of_char c :: nat) < 256"
    by (rule nat_of_char_less_256)
  then have lt: "of_char c div 16 < (16::nat)" "of_char c mod 16 < (16::nat)"
    by arith+
  show ?thesis
    using safe_plain[of c] hex_digit_plain[OF lt(1)] hex_digit_plain[OF lt(2)]
    by (auto simp: urlencoded_byte_def)
qed

lemma encoded_plain: "set (urlencoded_string s) \<inter> set ''&=#?'' = {}"
  using encoded_byte_plain by (induction s) (auto simp: urlencoded_string_def)

lemma encoded_no:
  "CHR ''&'' \<notin> set (urlencoded_string s)" "CHR ''='' \<notin> set (urlencoded_string s)"
  "CHR ''#'' \<notin> set (urlencoded_string s)" "CHR ''?'' \<notin> set (urlencoded_string s)"
  using encoded_plain[of s] by auto

lemma split_on_plain: "sep \<notin> set a \<Longrightarrow> split_on sep acc a = [rev acc @ a]"
  by (induction a arbitrary: acc) auto

lemma split_on_first:
  "sep \<notin> set a \<Longrightarrow> split_on sep acc (a @ sep # rest) = (rev acc @ a) # split_on sep [] rest"
  by (induction a arbitrary: acc) auto

lemma parse_pair_encoded:
  "parse_pair (urlencoded_string k @ ''='' @ urlencoded_string v) = (k, v)"
  using encoded_no(2)[of k]
  by (simp add: parse_pair_def takeWhile_append2 dropWhile_append2 percent_decode_encoded'
      takeWhile_append dropWhile_append)

lemma urlencoded_parse_toString: "urlencoded_parse (sp_toString ps) = ps"
proof (induction ps rule: sp_toString.induct)
  case 1
  show ?case by (simp add: urlencoded_parse_def)
next
  case (2 k v)
  have "CHR ''&'' \<notin> set (urlencoded_string k @ ''='' @ urlencoded_string v)"
    using encoded_no(1) by simp
  then show ?case
    using parse_pair_encoded[of k v] by (simp add: urlencoded_parse_def split_on_plain)
next
  case (3 k v p ps)
  have amp: "CHR ''&'' \<notin> set (urlencoded_string k @ ''='' @ urlencoded_string v)"
    using encoded_no(1) by simp
  have "sp_toString ((k, v) # p # ps) =
      (urlencoded_string k @ ''='' @ urlencoded_string v) @ CHR ''&'' # sp_toString (p # ps)"
    by simp
  then show ?case
    using 3 parse_pair_encoded[of k v] split_on_first[OF amp, of "[]" "sp_toString (p # ps)"]
    by (simp add: urlencoded_parse_def del: sp_toString.simps)
qed

lemma toString_no_hash: "CHR ''#'' \<notin> set (sp_toString ps)"
  by (induction ps rule: sp_toString.induct) (simp_all add: encoded_no)

lemma url_query_after:
  assumes "CHR ''?'' \<notin> set pre" "CHR ''#'' \<notin> set pre" "CHR ''#'' \<notin> set q"
  shows "url_query (pre @ CHR ''?'' # q) = q"
proof -
  have a: "takeWhile (\<lambda>c. c \<noteq> CHR ''#'') (pre @ CHR ''?'' # q) = pre @ CHR ''?'' # q"
    using assms by (auto simp: takeWhile_eq_all_conv)
  have b: "dropWhile (\<lambda>c. c \<noteq> CHR ''?'') (pre @ CHR ''?'' # q) = CHR ''?'' # q"
    using assms(1) by (induction pre) auto
  show ?thesis
    unfolding url_query_def a b by simp
qed

lemma host_chars:
  assumes "list_all origin_host_char host"
  shows "\<forall>c\<in>set host. c \<noteq> CHR ''/'' \<and> c \<noteq> CHR 0x5C \<and> c \<noteq> CHR ''?'' \<and> c \<noteq> CHR ''#''"
proof -
  have "\<forall>x \<in> set [CHR ''/'', CHR 0x5C, CHR ''?'', CHR ''#'']. \<not> origin_host_char x"
    by code_simp
  then have "origin_host_char c \<Longrightarrow>
      c \<noteq> CHR ''/'' \<and> c \<noteq> CHR 0x5C \<and> c \<noteq> CHR ''?'' \<and> c \<noteq> CHR ''#''" for c
    by auto
  then show ?thesis
    using assms by (auto simp: list_all_iff)
qed

lemma takeWhile_prefix: "(\<forall>x\<in>set xs. P x) \<Longrightarrow> \<not> P y \<Longrightarrow> takeWhile P (xs @ y # ys) = xs"
  by (induction xs) auto

lemma url_host_of:
  assumes "host \<noteq> []" "list_all origin_host_char host"
  shows "url_host (''//'' @ host @ CHR ''/'' # rest) = host"
proof -
  obtain h hs where host: "host = h # hs" using assms(1) by (cases host) auto
  have ok: "\<forall>c\<in>set host. c \<noteq> CHR ''/'' \<and> c \<noteq> CHR 0x5C \<and> c \<noteq> CHR ''?'' \<and> c \<noteq> CHR ''#''"
    using host_chars[OF assms(2)] .
  have d: "dropWhile (\<lambda>c. c \<in> set [CHR ''/'', CHR 0x5C]) (''//'' @ host @ CHR ''/'' # rest) =
      host @ CHR ''/'' # rest"
    using ok unfolding host by simp
  have t: "takeWhile (\<lambda>c. c \<notin> set [CHR ''/'', CHR 0x5C, CHR ''?'', CHR ''#'']) (host @ CHR ''/'' # rest) = host"
    using ok by (intro takeWhile_prefix) auto
  show ?thesis
    unfolding url_host_def d t ..
qed


lemma scheme_https:
  "takeWhile is_scheme_char (''https://'' @ rest) = ''https''"
  "takeWhile is_scheme_char (''http://'' @ rest) = ''http''"
  by (simp_all add: is_scheme_char_def is_alpha_def is_digit_def)

lemma lower_https:
  "ascii_lowercase ''https'' = ''https''"
  "ascii_lowercase ''http'' = ''http''"
  by (simp_all add: ascii_lowercase_def is_alpha_def)


lemma new_URL_https:
  assumes "host \<noteq> []" "list_all origin_host_char host" "CHR ''#'' \<notin> set q"
  shows "new_URL_searchParams (''https://'' @ host @ ''/?'' @ q) = Some (urlencoded_parse q)"
proof -
  have "url_query ((''https://'' @ host @ ''/'') @ CHR ''?'' # q) = q"
    using host_chars[OF assms(2)] assms(3) by (intro url_query_after) auto
  then have q: "url_query (''https://'' @ host @ ''/?'' @ q) = q"
    by simp
  have hst: "url_host (''//'' @ host @ CHR ''/'' # CHR ''?'' # q) = host"
    using assms(1,2) by (rule url_host_of)
  have sch: "takeWhile is_scheme_char (''https://'' @ host @ ''/?'' @ q) = ''https''"
    by (rule scheme_https)
  have aft: "drop (length ''https'') (''https://'' @ host @ ''/?'' @ q) = '':'' @ ''//'' @ host @ CHR ''/'' # CHR ''?'' # q"
    by simp
  show ?thesis
    unfolding new_URL_searchParams_def Let_def sch aft q lower_https
    using hst assms(1) by (simp add: is_alpha_def special_schemes_def)
qed

lemma new_URL_http:
  assumes "host \<noteq> []" "list_all origin_host_char host" "CHR ''#'' \<notin> set q"
  shows "new_URL_searchParams (''http://'' @ host @ ''/?'' @ q) = Some (urlencoded_parse q)"
proof -
  have "url_query ((''http://'' @ host @ ''/'') @ CHR ''?'' # q) = q"
    using host_chars[OF assms(2)] assms(3) by (intro url_query_after) auto
  then have q: "url_query (''http://'' @ host @ ''/?'' @ q) = q"
    by simp
  have hst: "url_host (''//'' @ host @ CHR ''/'' # CHR ''?'' # q) = host"
    using assms(1,2) by (rule url_host_of)
  have sch: "takeWhile is_scheme_char (''http://'' @ host @ ''/?'' @ q) = ''http''"
    by (rule scheme_https)
  have aft: "drop (length ''http'') (''http://'' @ host @ ''/?'' @ q) = '':'' @ ''//'' @ host @ CHR ''/'' # CHR ''?'' # q"
    by simp
  show ?thesis
    unfolding new_URL_searchParams_def Let_def sch aft q lower_https
    using hst assms(1) by (simp add: is_alpha_def special_schemes_def)
qed


lemma new_URL_origin:
  assumes "http_origin origin" "CHR ''#'' \<notin> set q"
  shows "new_URL_searchParams (origin @ ''/?'' @ q) = Some (urlencoded_parse q)"
proof (cases "take 8 origin = ''https://''")
  case True
  then have "''https://'' @ drop 8 origin = origin"
    using append_take_drop_id[of 8 origin] by simp
  then have o: "origin @ ''/?'' @ q = ''https://'' @ drop 8 origin @ ''/?'' @ q"
    by (metis append_assoc)
  have "drop 8 origin \<noteq> []" "list_all origin_host_char (drop 8 origin)"
    using assms(1) True by (simp_all add: http_origin_def Let_def)
  then show ?thesis
    unfolding o using assms(2) by (rule new_URL_https)
next
  case False
  then have t7: "take 7 origin = ''http://''"
    using assms(1) by (auto simp: http_origin_def Let_def split: if_splits)
  then have "''http://'' @ drop 7 origin = origin"
    using append_take_drop_id[of 7 origin] by simp
  then have o: "origin @ ''/?'' @ q = ''http://'' @ drop 7 origin @ ''/?'' @ q"
    by (metis append_assoc)
  have "drop 7 origin \<noteq> []" "list_all origin_host_char (drop 7 origin)"
    using assms(1) False t7 by (simp_all add: http_origin_def Let_def)
  then show ?thesis
    unfolding o using assms(2) by (rule new_URL_http)
qed

lemma default_origin: "http_origin ''https://thepizzadoughformula.com''"
  by (simp add: http_origin_def origin_host_char_def is_alpha_def is_digit_def)

lemma decode_of_encode:
  assumes "origin_supported w"
  shows "decodeRecipe (InString (encodeRecipe w r)) = Some (decode_params (encode_params r))"
proof -
  define base where
    "base = (case w of Some origin \<Rightarrow> origin | None \<Rightarrow> ''https://thepizzadoughformula.com'')"
  have "http_origin base"
    using assms default_origin by (cases w) (simp_all add: base_def)
  then have "new_URL_searchParams (base @ ''/?'' @ sp_toString (encode_params r)) =
      Some (urlencoded_parse (sp_toString (encode_params r)))"
    using toString_no_hash by (rule new_URL_origin)
  then show ?thesis
    by (simp add: decodeRecipe_def encodeRecipe_def urlencoded_parse_toString base_def)
qed


section \<open>RecipeURLCodec: what a link carries\<close>

lemma map_of_filter_other:
  "k' \<noteq> k \<Longrightarrow> map_of (filter (\<lambda>p. fst p \<noteq> k) ps) k' = map_of ps k'"
  by (induction ps) auto

lemma sp_get_set: "sp_get (sp_set k v ps) k' = (if k' = k then Some v else sp_get ps k')"
  by (induction ps) (auto simp: sp_get_def map_of_filter_other)

lemma sp_get_set_if_truthy:
  "sp_get (set_if_truthy x k ps) k' =
     (case x of Some s \<Rightarrow> if s \<noteq> [] \<and> k' = k then Some s else sp_get ps k' | None \<Rightarrow> sp_get ps k')"
  by (simp add: set_if_truthy_def sp_get_set split: option.splits)

lemma sp_get_empty: "sp_get [] k = None"
  by (simp add: sp_get_def)

lemma param_keys:
  "param_key ''style'' = ''s''" "param_key ''numBalls'' = ''n''" "param_key ''ballWeight'' = ''w''"
  "param_key ''hydration'' = ''h''" "param_key ''salt'' = ''sa''" "param_key ''yeast'' = ''y''"
  "param_key ''oil'' = ''o''" "param_key ''sugar'' = ''su''" "param_key ''usePreFerment'' = ''pf''"
  "param_key ''preFermentType'' = ''pft''" "param_key ''preFermentFlourPercent'' = ''pfp''"
  "param_key ''humidityAdjust'' = ''ha''" "param_key ''flourType'' = ''ft''"
  by (simp_all add: param_key_def PARAM_MAP_def)

lemma encode_params_gets:
  "sp_get (encode_params r) ''s'' =
     (case recipe.style r of Some s \<Rightarrow> if s \<noteq> [] then Some s else None | None \<Rightarrow> None)"
  "sp_get (encode_params r) ''n'' = Some (Number_toString (recipe.numBalls r))"
  "sp_get (encode_params r) ''w'' = Some (Number_toString (recipe.ballWeight r))"
  "sp_get (encode_params r) ''h'' = Some (Number_toString (round_half_up (recipe.hydration r * 100)))"
  "sp_get (encode_params r) ''sa'' = Some (Number_toString (round_half_up (recipe.salt r * 1000)))"
  "sp_get (encode_params r) ''y'' = Some (Number_toString (round_half_up (recipe.yeast r * 1000)))"
  "sp_get (encode_params r) ''o'' =
     (if recipe.oil r > 0 then Some (Number_toString (round_half_up (recipe.oil r * 100))) else None)"
  "sp_get (encode_params r) ''su'' =
     (if recipe.sugar r > 0 then Some (Number_toString (round_half_up (recipe.sugar r * 100))) else None)"
  "sp_get (encode_params r) ''pf'' = (if recipe.usePreFerment r then Some ''1'' else None)"
  "sp_get (encode_params r) ''pft'' =
     (if recipe.usePreFerment r
      then Some (if recipe.preFermentType r \<noteq> [] then recipe.preFermentType r else ''poolish'')
      else None)"
  "sp_get (encode_params r) ''pfp'' =
     (if recipe.usePreFerment r
      then Some (Number_toString (round_half_up (recipe.preFermentFlourPercent r * 100)))
      else None)"
  "sp_get (encode_params r) ''ha'' = (if recipe.humidityAdjust r then Some ''1'' else None)"
  "sp_get (encode_params r) ''ft'' =
     (case recipe.flourType r of Some s \<Rightarrow> if s \<noteq> [] then Some s else None | None \<Rightarrow> None)"
  by (simp_all add: encode_params_def Let_def param_keys sp_get_set sp_get_set_if_truthy
      sp_get_empty split: option.splits)


lemma map_of_js_set: "map_of (js_set k v ps) k' = (if k' = k then Some v else map_of ps k')"
  by (induction ps) auto

lemma map_of_js_set_other: "k' \<noteq> k \<Longrightarrow> map_of (js_set k v ps) k' = map_of ps k'"
  by (simp add: map_of_js_set)

lemma map_of_js_set_same: "map_of (js_set k v ps) k = Some v"
  by (simp add: map_of_js_set)

lemma map_of_assign_other:
  "k' \<noteq> name \<Longrightarrow> map_of (assign_if_truthy x name conv ps) k' = map_of ps k'"
  by (simp add: assign_if_truthy_def map_of_js_set split: option.splits)

lemma map_of_assign_same:
  "map_of (assign_if_truthy x name conv ps) name =
     (case x of Some s \<Rightarrow> if s \<noteq> [] then Some (conv s) else map_of ps name
      | None \<Rightarrow> map_of ps name)"
  by (simp add: assign_if_truthy_def map_of_js_set split: option.splits)

lemmas obj_reads =
  map_of_js_set_other map_of_js_set_same map_of_assign_other map_of_assign_same

lemma decode_params_gets:
  "js_get (decode_params ps) ''style'' =
     (case sp_get ps ''s'' of Some s \<Rightarrow> if s \<noteq> [] then Some (JStr s) else None | None \<Rightarrow> None)"
  "js_get (decode_params ps) ''numBalls'' =
     (case sp_get ps ''n'' of Some s \<Rightarrow> if s \<noteq> [] then Some (JNum (parseInt s)) else None
      | None \<Rightarrow> None)"
  "js_get (decode_params ps) ''ballWeight'' =
     (case sp_get ps ''w'' of Some s \<Rightarrow> if s \<noteq> [] then Some (JNum (parseInt s)) else None
      | None \<Rightarrow> None)"
  "js_get (decode_params ps) ''hydration'' =
     (case sp_get ps ''h'' of
        Some s \<Rightarrow> if s \<noteq> [] then Some (JNum (js_div (parseInt s) (Num 100))) else None
      | None \<Rightarrow> None)"
  "js_get (decode_params ps) ''salt'' =
     (case sp_get ps ''sa'' of
        Some s \<Rightarrow> if s \<noteq> [] then Some (JNum (js_div (parseInt s) (Num 1000))) else None
      | None \<Rightarrow> None)"
  "js_get (decode_params ps) ''yeast'' =
     (case sp_get ps ''y'' of
        Some s \<Rightarrow> if s \<noteq> [] then Some (JNum (js_div (parseInt s) (Num 1000))) else None
      | None \<Rightarrow> None)"
  "js_get (decode_params ps) ''oil'' =
     (case sp_get ps ''o'' of
        Some s \<Rightarrow> if s \<noteq> [] then Some (JNum (js_div (parseInt s) (Num 100))) else None
      | None \<Rightarrow> None)"
  "js_get (decode_params ps) ''sugar'' =
     (case sp_get ps ''su'' of
        Some s \<Rightarrow> if s \<noteq> [] then Some (JNum (js_div (parseInt s) (Num 100))) else None
      | None \<Rightarrow> None)"
  "js_get (decode_params ps) ''usePreFerment'' =
     (if sp_get ps ''pf'' = Some ''1'' then Some (JBool True) else None)"
  "js_get (decode_params ps) ''preFermentType'' =
     (if sp_get ps ''pf'' = Some ''1''
      then Some (JStr (case sp_get ps ''pft'' of
                         Some t \<Rightarrow> if t \<noteq> [] then t else ''poolish'' | None \<Rightarrow> ''poolish''))
      else None)"
  "js_get (decode_params ps) ''preFermentFlourPercent'' =
     (if sp_get ps ''pf'' = Some ''1''
      then (case sp_get ps ''pfp'' of
              Some s \<Rightarrow> if s \<noteq> [] then Some (JNum (js_div (parseInt s) (Num 100))) else None
            | None \<Rightarrow> None)
      else None)"
  "js_get (decode_params ps) ''humidityAdjust'' =
     (if sp_get ps ''ha'' = Some ''1'' then Some (JBool True) else None)"
  "js_get (decode_params ps) ''flourType'' =
     (case sp_get ps ''ft'' of Some s \<Rightarrow> if s \<noteq> [] then Some (JStr s) else None | None \<Rightarrow> None)"
  "js_get (decode_params ps) ''bigaHydration'' = None"
  by (simp_all add: decode_params_def Let_def param_keys obj_reads cong: if_cong option.case_cong)

lemma Number_toString_nonempty: "Number_toString n \<noteq> []"
  by (simp add: Number_toString_def digits_of_nonempty)

lemma round_half_up_whole: "is_whole a \<Longrightarrow> of_int (round_half_up a) = a"
proof -
  assume "is_whole a"
  then have a: "of_int \<lfloor>a\<rfloor> = a" unfolding is_whole_def .
  have "\<lfloor>of_int \<lfloor>a\<rfloor> + (1 / 2 :: rat)\<rfloor> = \<lfloor>a\<rfloor>"
    by (simp add: floor_unique)
  then have "round_half_up a = \<lfloor>a\<rfloor>"
    unfolding round_half_up_def a .
  then show ?thesis using a by simp
qed

lemma scaled_back:
  "is_whole (a * 100) \<Longrightarrow> js_div (Num (of_int (round_half_up (a * 100)))) (Num 100) = Num a"
  "is_whole (a * 1000) \<Longrightarrow> js_div (Num (of_int (round_half_up (a * 1000)))) (Num 1000) = Num a"
  by (simp_all add: round_half_up_whole)

text \<open>
  Claim C2, as the code has it. For a recipe within the supported precision, encoded on
  the default origin or on the origin of an http or https page, \<open>decodeRecipe\<close> of
  \<open>encodeRecipe\<close> returns an object that carries \<open>numBalls\<close>, \<open>ballWeight\<close>,
  \<open>hydration\<close>, \<open>salt\<close> and \<open>yeast\<close> as they were; \<open>oil\<close> and \<open>sugar\<close> when they are
  positive, and no such property otherwise; \<open>usePreFerment = true\<close>, \<open>preFermentType\<close>
  (an empty type read as \<open>poolish\<close>) and \<open>preFermentFlourPercent\<close> when \<open>usePreFerment\<close>
  is set, and none of the three otherwise; \<open>humidityAdjust = true\<close> when it is set;
  \<open>style\<close> and \<open>flourType\<close> when they are not empty; and never \<open>bigaHydration\<close>, which
  the link does not hold.
\<close>

theorem decode_encode_fields:
  assumes "supported_precision r" and "origin_supported w"
  shows "\<exists>d. decodeRecipe (InString (encodeRecipe w r)) = Some d \<and>
     js_get d ''numBalls'' = Some (JNum (Num (of_int (recipe.numBalls r)))) \<and>
     js_get d ''ballWeight'' = Some (JNum (Num (of_int (recipe.ballWeight r)))) \<and>
     js_get d ''hydration'' = Some (JNum (Num (recipe.hydration r))) \<and>
     js_get d ''salt'' = Some (JNum (Num (recipe.salt r))) \<and>
     js_get d ''yeast'' = Some (JNum (Num (recipe.yeast r))) \<and>
     js_get d ''oil'' = (if recipe.oil r > 0 then Some (JNum (Num (recipe.oil r))) else None) \<and>
     js_get d ''sugar'' = (if recipe.sugar r > 0 then Some (JNum (Num (recipe.sugar r))) else None) \<and>
     js_get d ''usePreFerment'' = (if recipe.usePreFerment r then Some (JBool True) else None) \<and>
     js_get d ''preFermentType'' =
       (if recipe.usePreFerment r
        then Some (JStr (if recipe.preFermentType r \<noteq> [] then recipe.preFermentType r else ''poolish''))
        else None) \<and>
     js_get d ''preFermentFlourPercent'' =
       (if recipe.usePreFerment r then Some (JNum (Num (recipe.preFermentFlourPercent r))) else None) \<and>
     js_get d ''bigaHydration'' = None \<and>
     js_get d ''humidityAdjust'' = (if recipe.humidityAdjust r then Some (JBool True) else None) \<and>
     js_get d ''style'' =
       (case recipe.style r of Some s \<Rightarrow> if s \<noteq> [] then Some (JStr s) else None | None \<Rightarrow> None) \<and>
     js_get d ''flourType'' =
       (case recipe.flourType r of Some s \<Rightarrow> if s \<noteq> [] then Some (JStr s) else None | None \<Rightarrow> None)"
proof -
  let ?d = "decode_params (encode_params r)"
  note gets = decode_params_gets encode_params_gets parseInt_toString Number_toString_nonempty
  have p: "is_whole (recipe.hydration r * 100)" "is_whole (recipe.salt r * 1000)"
    "is_whole (recipe.yeast r * 1000)" "is_whole (recipe.oil r * 100)"
    "is_whole (recipe.sugar r * 100)" "is_whole (recipe.preFermentFlourPercent r * 100)"
    using assms(1) by (simp_all add: supported_precision_def)
  have 1: "js_get ?d ''numBalls'' = Some (JNum (Num (of_int (recipe.numBalls r))))"
    by (simp add: gets del: js_get.simps)
  have 2: "js_get ?d ''ballWeight'' = Some (JNum (Num (of_int (recipe.ballWeight r))))"
    by (simp add: gets del: js_get.simps)
  have 3: "js_get ?d ''hydration'' = Some (JNum (Num (recipe.hydration r)))"
    by (simp add: gets scaled_back(1)[OF p(1)] del: js_get.simps js_div.simps)
  have 4: "js_get ?d ''salt'' = Some (JNum (Num (recipe.salt r)))"
    by (simp add: gets scaled_back(2)[OF p(2)] del: js_get.simps js_div.simps)
  have 5: "js_get ?d ''yeast'' = Some (JNum (Num (recipe.yeast r)))"
    by (simp add: gets scaled_back(2)[OF p(3)] del: js_get.simps js_div.simps)
  have 6: "js_get ?d ''oil'' = (if recipe.oil r > 0 then Some (JNum (Num (recipe.oil r))) else None)"
    by (simp add: gets scaled_back(1)[OF p(4)] del: js_get.simps js_div.simps)
  have 7: "js_get ?d ''sugar'' =
      (if recipe.sugar r > 0 then Some (JNum (Num (recipe.sugar r))) else None)"
    by (simp add: gets scaled_back(1)[OF p(5)] del: js_get.simps js_div.simps)
  have 8: "js_get ?d ''usePreFerment'' = (if recipe.usePreFerment r then Some (JBool True) else None)"
    by (simp add: gets del: js_get.simps)
  have 9: "js_get ?d ''preFermentType'' =
       (if recipe.usePreFerment r
        then Some (JStr (if recipe.preFermentType r \<noteq> [] then recipe.preFermentType r else ''poolish''))
        else None)"
    by (simp add: gets del: js_get.simps)
  have 10: "js_get ?d ''preFermentFlourPercent'' =
       (if recipe.usePreFerment r then Some (JNum (Num (recipe.preFermentFlourPercent r))) else None)"
    by (simp add: gets scaled_back(1)[OF p(6)] del: js_get.simps js_div.simps)
  have 11: "js_get ?d ''bigaHydration'' = None"
    by (simp add: gets del: js_get.simps)
  have 12: "js_get ?d ''humidityAdjust'' = (if recipe.humidityAdjust r then Some (JBool True) else None)"
    by (simp add: gets del: js_get.simps)
  have 13: "js_get ?d ''style'' =
       (case recipe.style r of Some s \<Rightarrow> if s \<noteq> [] then Some (JStr s) else None | None \<Rightarrow> None)"
    by (simp add: gets del: js_get.simps split: option.splits)
  have 14: "js_get ?d ''flourType'' =
       (case recipe.flourType r of Some s \<Rightarrow> if s \<noteq> [] then Some (JStr s) else None | None \<Rightarrow> None)"
    by (simp add: gets del: js_get.simps split: option.splits)
  show ?thesis
    unfolding decode_of_encode[OF assms(2)]
    using 1 2 3 4 5 6 7 8 9 10 11 12 13 14 by blast
qed

theorem decode_encode_fields_witness:
  "supported_precision shared_recipe \<and> origin_supported (Some ''http://localhost:4321'') \<and>
   (\<exists>d. decodeRecipe (InString (encodeRecipe (Some ''http://localhost:4321'') shared_recipe)) =
           Some d \<and>
        js_get d ''numBalls'' = Some (JNum (Num 6)) \<and>
        js_get d ''ballWeight'' = Some (JNum (Num 280)) \<and>
        js_get d ''hydration'' = Some (JNum (Num (65 / 100))) \<and>
        js_get d ''salt'' = Some (JNum (Num (2 / 100))) \<and>
        js_get d ''yeast'' = Some (JNum (Num (4 / 1000))) \<and>
        js_get d ''oil'' = Some (JNum (Num (3 / 100))) \<and>
        js_get d ''sugar'' = None \<and>
        js_get d ''usePreFerment'' = None \<and>
        js_get d ''bigaHydration'' = None \<and>
        js_get d ''humidityAdjust'' = Some (JBool True) \<and>
        js_get d ''style'' = Some (JStr ''newYork'') \<and>
        js_get d ''flourType'' = Some (JStr ''bread flour''))"
proof -
  have h1: "supported_precision shared_recipe"
    by (simp add: supported_precision_def is_whole_def prints_as_digits_def round_half_up_def
        shared_recipe_def)
  have h2: "origin_supported (Some ''http://localhost:4321'')"
    by (simp add: http_origin_def origin_host_char_def is_alpha_def is_digit_def)
  from decode_encode_fields[OF h1 h2] obtain d where
    d: "decodeRecipe (InString (encodeRecipe (Some ''http://localhost:4321'') shared_recipe)) =
          Some d"
      "js_get d ''numBalls'' = Some (JNum (Num (of_int (recipe.numBalls shared_recipe))))"
      "js_get d ''ballWeight'' = Some (JNum (Num (of_int (recipe.ballWeight shared_recipe))))"
      "js_get d ''hydration'' = Some (JNum (Num (recipe.hydration shared_recipe)))"
      "js_get d ''salt'' = Some (JNum (Num (recipe.salt shared_recipe)))"
      "js_get d ''yeast'' = Some (JNum (Num (recipe.yeast shared_recipe)))"
      "js_get d ''oil'' =
         (if recipe.oil shared_recipe > 0 then Some (JNum (Num (recipe.oil shared_recipe)))
          else None)"
      "js_get d ''sugar'' =
         (if recipe.sugar shared_recipe > 0 then Some (JNum (Num (recipe.sugar shared_recipe)))
          else None)"
      "js_get d ''usePreFerment'' =
         (if recipe.usePreFerment shared_recipe then Some (JBool True) else None)"
      "js_get d ''bigaHydration'' = None"
      "js_get d ''humidityAdjust'' =
         (if recipe.humidityAdjust shared_recipe then Some (JBool True) else None)"
      "js_get d ''style'' =
         (case recipe.style shared_recipe of
            Some s \<Rightarrow> if s \<noteq> [] then Some (JStr s) else None | None \<Rightarrow> None)"
      "js_get d ''flourType'' =
         (case recipe.flourType shared_recipe of
            Some s \<Rightarrow> if s \<noteq> [] then Some (JStr s) else None | None \<Rightarrow> None)"
    by blast
  have "js_get d ''numBalls'' = Some (JNum (Num 6))"
       "js_get d ''ballWeight'' = Some (JNum (Num 280))"
       "js_get d ''hydration'' = Some (JNum (Num (65 / 100)))"
       "js_get d ''salt'' = Some (JNum (Num (2 / 100)))"
       "js_get d ''yeast'' = Some (JNum (Num (4 / 1000)))"
       "js_get d ''oil'' = Some (JNum (Num (3 / 100)))"
       "js_get d ''sugar'' = None"
       "js_get d ''usePreFerment'' = None"
       "js_get d ''bigaHydration'' = None"
       "js_get d ''humidityAdjust'' = Some (JBool True)"
       "js_get d ''style'' = Some (JStr ''newYork'')"
       "js_get d ''flourType'' = Some (JStr ''bread flour'')"
    using d(2-) by (simp_all add: shared_recipe_def)
  then show ?thesis
    using h1 h2 d(1) by blast
qed

lemma encode_params_ignores_bigaHydration:
  "encode_params (r\<lparr>recipe.bigaHydration := x\<rparr>) = encode_params r"
  by (simp add: encode_params_def cong: if_cong)

text \<open>
  The claim as it was stated fails on \<open>bigaHydration\<close>: a biga recipe with
  \<open>bigaHydration = 0.6\<close> is within the supported precision, its link holds no
  \<open>bigaHydration\<close> (it is the link of the same recipe with \<open>bigaHydration = 0.5\<close>), and
  the decoded object has no such property.
\<close>

theorem biga_hydration_lost_counterexample:
  "supported_precision biga_recipe \<and>
   recipe.usePreFerment biga_recipe \<and> recipe.preFermentType biga_recipe = ''biga'' \<and>
   recipe.bigaHydration biga_recipe = 60 / 100 \<and>
   encodeRecipe None biga_recipe =
     ''https://thepizzadoughformula.com/?n=4&w=250&h=65&sa=20&y=3&pf=1&pft=biga&pfp=25'' \<and>
   encodeRecipe None (biga_recipe\<lparr>recipe.bigaHydration := 50 / 100\<rparr>) =
     encodeRecipe None biga_recipe \<and>
   decodeRecipe (InString (encodeRecipe None biga_recipe)) =
     Some (JObj
       [(''numBalls'', JNum (Num 4)), (''ballWeight'', JNum (Num 250)),
        (''hydration'', JNum (Num (65 / 100))), (''salt'', JNum (Num (20 / 1000))),
        (''yeast'', JNum (Num (3 / 1000))), (''usePreFerment'', JBool True),
        (''preFermentType'', JStr ''biga''),
        (''preFermentFlourPercent'', JNum (Num (25 / 100)))]) \<and>
   js_path (JObj
       [(''numBalls'', JNum (Num 4)), (''ballWeight'', JNum (Num 250)),
        (''hydration'', JNum (Num (65 / 100))), (''salt'', JNum (Num (20 / 1000))),
        (''yeast'', JNum (Num (3 / 1000))), (''usePreFerment'', JBool True),
        (''preFermentType'', JStr ''biga''),
        (''preFermentFlourPercent'', JNum (Num (25 / 100)))]) [''bigaHydration''] = None"
proof -
  have url: "encodeRecipe None biga_recipe =
      ''https://thepizzadoughformula.com/?n=4&w=250&h=65&sa=20&y=3&pf=1&pft=biga&pfp=25''"
    by (simp add: encodeRecipe_def encode_params_def Let_def param_keys set_if_truthy_def
        biga_recipe_def Number_toString_def round_half_up_def digits_of.simps digit_char_def
        urlencoded_string_def urlencoded_byte_def urlencoded_safe_def)
  have same: "encodeRecipe None (biga_recipe\<lparr>recipe.bigaHydration := 50 / 100\<rparr>) =
      encodeRecipe None biga_recipe"
    by (simp add: encodeRecipe_def encode_params_ignores_bigaHydration)
  have dec: "decodeRecipe
      (InString ''https://thepizzadoughformula.com/?n=4&w=250&h=65&sa=20&y=3&pf=1&pft=biga&pfp=25'') =
     Some (JObj
       [(''numBalls'', JNum (Num 4)), (''ballWeight'', JNum (Num 250)),
        (''hydration'', JNum (Num (65 / 100))), (''salt'', JNum (Num (20 / 1000))),
        (''yeast'', JNum (Num (3 / 1000))), (''usePreFerment'', JBool True),
        (''preFermentType'', JStr ''biga''),
        (''preFermentFlourPercent'', JNum (Num (25 / 100)))])"
    by code_simp
  have prec: "supported_precision biga_recipe"
    by (simp add: supported_precision_def is_whole_def prints_as_digits_def round_half_up_def
        biga_recipe_def)
  show ?thesis
    using prec same dec unfolding url by (simp add: biga_recipe_def)
qed

lemma decode_params_object: "\<exists>props. decode_params params = JObj props"
  by (simp add: decode_params_def Let_def)

text \<open>
  Claim C10. For every string, a URL or not, \<open>decodeRecipe\<close> returns a recipe object
  (possibly an empty one) and not \<open>null\<close>; so it does for a \<open>URLSearchParams\<close> value; and
  it returns \<open>null\<close> exactly when the input is neither.
\<close>

theorem decodeRecipe_null_iff:
  "(\<exists>props. decodeRecipe (InString s) = Some (JObj props)) \<and>
   (\<exists>props. decodeRecipe (InParams params) = Some (JObj props)) \<and>
   (decodeRecipe input = None \<longleftrightarrow> input = InOther)"
  using decode_params_object by (cases input) (simp_all add: decodeRecipe_def)

theorem decodeRecipe_null_iff_witness:
  "(\<exists>props. decodeRecipe (InString ''%zz&&=x?#'') = Some (JObj props)) \<and>
   decodeRecipe InOther = None"
  using decodeRecipe_null_iff[of "''%zz&&=x?#''" "[]" InOther] by simp


section \<open>PresetCatalog: \<open>getStyleDefaults\<close>\<close>

lemma getStyleDefaults_catalog:
  assumes "id' \<in> set getStyleIds"
  shows "getStyleDefaults id' = spread (js_path PIZZA_STYLES [id', ''defaults''])"
  using assms by (auto simp: getStyleIds_def getStyleDefaults_def PIZZA_STYLES_def)

lemma getStyleDefaults_unknown:
  assumes "id' \<notin> set getStyleIds" and "id' \<notin> set Object_prototype_names"
  shows "getStyleDefaults id' = spread (js_path PIZZA_STYLES [''custom'', ''defaults''])"
  using assms by (simp add: getStyleIds_def getStyleDefaults_def PIZZA_STYLES_def)

text \<open>
  Claim C9 fails on the code for an id that names a member of \<open>Object.prototype\<close>:
  \<open>constructor\<close> is not a style of the catalog, yet \<open>PIZZA_STYLES['constructor']\<close> is the
  inherited function, the condition holds, and the spread of its missing \<open>defaults\<close> is
  the empty object, not the defaults of \<open>custom\<close>. (The two lemmas above are the claim
  for the ids of the catalog and for the unknown ids that \<open>Object.prototype\<close> does not
  have.)
\<close>

theorem getStyleDefaults_inherited_name:
  "''constructor'' \<notin> set getStyleIds \<and>
   getStyleDefaults ''constructor'' = JObj [] \<and>
   spread (js_path PIZZA_STYLES [''custom'', ''defaults'']) =
     JObj [(''ballWeight'', JNum (Num 250)), (''hydration'', JNum (Num (65 / 100))),
           (''salt'', JNum (Num (2 / 100))), (''yeast'', JNum (Num (3 / 1000))),
           (''oil'', JNum (Num 0)), (''sugar'', JNum (Num 0))]"
  by (simp add: getStyleIds_def getStyleDefaults_def PIZZA_STYLES_def Object_prototype_names_def)


section \<open>EmergencyTimer: a snapshot that expired while the page was closed\<close>

lemmas timer_defs =
  new_EmergencyTimer_def loadState_def run_pending_def set_callbacks_def emit_def
  playNotification_def saveState_def clearState_def start_def pause_def complete_def tick_def

lemma expired_on_load:
  assumes "saved_state.isRunning s" and "saved_state.remaining s \<le> now - savedAt s"
  shows "storage (run_pending later (set_callbacks t c sc (new_EmergencyTimer d now (Item s)))) = Item s"
    and "events (run_pending later (set_callbacks t c sc (new_EmergencyTimer d now (Item s)))) =
           (if c then [Completed_callback] else []) @ [Notification_played]"
    and "remaining (timer (run_pending later (set_callbacks t c sc (new_EmergencyTimer d now (Item s))))) = 0"
    and "\<not> isRunning (timer (run_pending later (set_callbacks t c sc (new_EmergencyTimer d now (Item s)))))"
  using assms by (simp_all add: timer_defs Let_def)

lemma tick_completion_clears_store:
  assumes "isRunning (timer w)" and "intervalId (timer w) = Some endTime" and "endTime \<le> now"
    and "storage w \<noteq> No_storage"
  shows "storage (tick now w) = No_item"
    and "remaining (timer (tick now w)) = 0"
    and "\<not> isRunning (timer (tick now w))"
  using assms by (simp_all add: timer_defs Let_def)

text \<open>
  Claim C3 fails on the code in its last part. Loaded twenty minutes after a running
  snapshot with ten minutes left was saved, the timer shows 0, is not running, and its
  deferred callback calls \<open>onComplete\<close> and plays the notification once; but this path
  does not go through \<open>complete\<close>, the store still holds the running snapshot, and the
  next load plays the notification again. (A completion by a tick, the lemma above,
  clears the store.)
\<close>

theorem expired_snapshot_is_not_cleared:
  "remaining (timer (run_pending 1200000 (set_callbacks True True True
      (new_EmergencyTimer 7200000 1200000 (Item expired_snapshot))))) = 0 \<and>
   events (run_pending 1200000 (set_callbacks True True True
      (new_EmergencyTimer 7200000 1200000 (Item expired_snapshot)))) =
     [Completed_callback, Notification_played] \<and>
   storage (run_pending 1200000 (set_callbacks True True True
      (new_EmergencyTimer 7200000 1200000 (Item expired_snapshot)))) = Item expired_snapshot \<and>
   events (run_pending 1300000 (set_callbacks True True True
      (new_EmergencyTimer 7200000 1300000
         (storage (run_pending 1200000 (set_callbacks True True True
            (new_EmergencyTimer 7200000 1200000 (Item expired_snapshot)))))))) =
     [Completed_callback, Notification_played]"
  by (simp add: timer_defs Let_def expired_snapshot_def)

end
